theory Spec2Isabelle
  imports Main "HOL-Library.Sublist" "HOL-Library.Word"
begin

unbundle bit_operations_syntax

section \<open>Strings\<close>

text \<open>
  Go strings are byte sequences; they are modelled as \<open>string\<close> (a list of 8-bit
  characters). \<open>strings.ToLower\<close> is modelled on ASCII: the letters \<open>A\<close>..\<open>Z\<close>
  (bytes 65..90) get bit 5 set, every other byte is kept. On strings of ASCII bytes this
  is what Go computes. Go lower-cases the letters outside ASCII as well, which the model
  leaves as they are: what is evaluated through \<open>ToLower\<close> below is about descriptions
  and paths of ASCII bytes.
\<close>

definition isUpper :: "char \<Rightarrow> bool" where
  "isUpper c = (65 \<le> (of_char c :: nat) \<and> (of_char c :: nat) \<le> 90)"

fun toLowerChar :: "char \<Rightarrow> char" where
  "toLowerChar (Char b0 b1 b2 b3 b4 b5 b6 b7) =
     (if isUpper (Char b0 b1 b2 b3 b4 b5 b6 b7) then Char b0 b1 b2 b3 b4 True b6 b7
      else Char b0 b1 b2 b3 b4 b5 b6 b7)"

definition ToLower :: "string \<Rightarrow> string" where
  "ToLower s = map toLowerChar s"

text \<open>\<open>strings.HasPrefix\<close> and \<open>strings.Contains\<close>: a substring is a prefix of some suffix.\<close>

fun HasPrefix :: "string \<Rightarrow> string \<Rightarrow> bool" where
  "HasPrefix s [] = True"
| "HasPrefix [] (p # ps) = False"
| "HasPrefix (c # cs) (p # ps) = (c = p \<and> HasPrefix cs ps)"

fun Contains :: "string \<Rightarrow> string \<Rightarrow> bool" where
  "Contains [] substr = (substr = [])"
| "Contains (c # cs) substr = (HasPrefix (c # cs) substr \<or> Contains cs substr)"

section \<open>Errors\<close>

text \<open>
  The error values of \<open>daemon/start.go\<close>: \<open>fmt.Errorf\<close> builds a plain error from its
  message, \<open>apierrors.NewBadRequestError\<close> and \<open>apierrors.NewErrorWithStatusCode\<close> wrap
  an error with an HTTP status. \<open>NotFoundError\<close> is what the container lookup answers
  for an unknown reference.
\<close>

datatype error =
    Errorf string
  | BadRequestError error
  | ErrorWithStatusCode error nat
  | NotFoundError string

text \<open>\<open>err.Error()\<close>: the message of an error; a wrapper keeps the message it wraps.\<close>

fun errorString :: "error \<Rightarrow> string" where
  "errorString (Errorf s) = s"
| "errorString (BadRequestError e) = errorString e"
| "errorString (ErrorWithStatusCode e n) = errorString e"
| "errorString (NotFoundError s) = ''No such container: '' @ s"

text \<open>\<open>http.StatusNotModified\<close> and \<open>http.StatusBadRequest\<close> of Go's \<open>net/http\<close>.\<close>

definition StatusNotModified :: nat where
  "StatusNotModified = 304"

definition StatusBadRequest :: nat where
  "StatusBadRequest = 400"

text \<open>
  \<open>syscall.EACCES.Error()\<close> and \<open>syscall.ENOTDIR.Error()\<close>: the messages of Go's errno
  table, the platform's permission-denied and not-a-directory texts.
\<close>

definition EACCES_Error :: string where
  "EACCES_Error = ''permission denied''"

definition ENOTDIR_Error :: string where
  "ENOTDIR_Error = ''not a directory''"

section \<open>Containers\<close>

record hostconfig =
  NetworkMode :: string
  AutoRemove :: bool
  LogConfig :: string
  SecurityOpt :: "string list"

text \<open>
  The fields of \<open>container.Container\<close> that \<open>daemon/start.go\<close> reads or writes. The
  lifecycle flags, the exit code and the recorded error live in the container's
  \<open>State\<close>; \<open>Networks\<close> is \<open>NetworkSettings.Networks\<close> (\<open>None\<close> is Go's \<open>nil\<close>).
\<close>

record container =
  ID :: string
  Path :: string
  Running :: bool
  Paused :: bool
  RemovalInProgress :: bool
  Dead :: bool
  exitCode :: int
  Error :: string
  HostConfig :: hostconfig
  Networks :: "string list option"
  BaseFS :: string
  ExecCommands :: "string list"

text \<open>
  Modelled from the spec: the accessors of the container's state, which are declared
  outside the files at hand. The spec's data model lists the lifecycle flags and the
  "last exit code/error"; the rollback handler is to "record the error on the
  container" and "force a non-zero exit code".
\<close>

definition IsPaused :: "container \<Rightarrow> bool" where
  "IsPaused c = Paused c"

definition IsRunning :: "container \<Rightarrow> bool" where
  "IsRunning c = Running c"

definition ExitCode :: "container \<Rightarrow> int" where
  "ExitCode c = exitCode c"

definition SetExitCode :: "container \<Rightarrow> int \<Rightarrow> container" where
  "SetExitCode c ec = c\<lparr>exitCode := ec\<rparr>"

definition SetError :: "container \<Rightarrow> error \<Rightarrow> container" where
  "SetError c err = c\<lparr>Error := errorString err\<rparr>"

text \<open>
  Modelled from the spec: \<open>runconfig.SetDefaultNetModeIfBlank\<close>, "normalize an unset
  network mode to the platform default".
\<close>

definition SetDefaultNetModeIfBlank :: "hostconfig \<Rightarrow> hostconfig" where
  "SetDefaultNetModeIfBlank hc =
     (if NetworkMode hc = '''' then hc\<lparr>NetworkMode := ''default''\<rparr> else hc)"

section \<open>Classification of a failed Create\<close>

text \<open>
  The local helper of \<open>containerStart\<close>:
  \<^verbatim>\<open>contains := func(s1, s2 string) bool { return strings.Contains(strings.ToLower(s1), s2) }\<close>
  Only the first argument is lower-cased.
\<close>

definition contains :: "string \<Rightarrow> string \<Rightarrow> bool" where
  "contains s1 s2 = Contains (ToLower s1) s2"

text \<open>The three conditions of lines 188-191, 195 and 200 of \<open>daemon/start.go\<close>.\<close>

definition cmdNotFound :: "container \<Rightarrow> string \<Rightarrow> bool" where
  "cmdNotFound c errDesc =
     (contains errDesc (Path c) \<and>
      (contains errDesc ''executable file not found'' \<or>
       contains errDesc ''no such file or directory'' \<or>
       contains errDesc ''system cannot find the file specified''))"

definition permissionDenied :: "string \<Rightarrow> bool" where
  "permissionDenied errDesc = contains errDesc EACCES_Error"

definition notADirectory :: "string \<Rightarrow> bool" where
  "notADirectory errDesc = contains errDesc ENOTDIR_Error"

definition mountHint :: string where
  "mountHint = '': Are you trying to mount a directory onto a file (or vice-versa)? Check if the specified host path exists and is the expected type''"

text \<open>
  Lines 185-205: what \<open>containerStart\<close> does with the description \<open>errDesc\<close> of the
  error of the runtime client's \<open>Create\<close>. The three \<open>if\<close> statements follow one
  another (none is an \<open>else\<close> of the one before); the result is the error to return
  and the container.
\<close>

definition createFailed :: "container \<Rightarrow> string \<Rightarrow> error \<times> container" where
  "createFailed c errDesc =
     (let c1 = (if cmdNotFound c errDesc then SetExitCode c 127 else c);
          c2 = (if permissionDenied errDesc then SetExitCode c1 126 else c1);
          (errDesc', c3) =
             (if notADirectory errDesc then (errDesc @ mountHint, SetExitCode c2 127)
              else (errDesc, c2))
      in (Errorf errDesc', c3))"

section \<open>The daemon's collaborators\<close>

type_synonym spec = string
type_synonym create_option = string

text \<open>
  The calls \<open>daemon/start.go\<close> makes to code outside itself are recorded as events, in
  the order they happen. \<open>EvToDisk\<close> carries the container as it is persisted. The
  \<open>fmt.Printf\<close> debugging prints of the file and the start time read for the metric
  are left out.
\<close>

datatype event =
    EvLock
  | EvUnlock
  | EvLog string
  | EvSetSecurityOptions
  | EvMergeAndVerifyLogConfig
  | EvSetHostConfig
  | EvInitDNSHostConfig
  | EvVerifyContainerSettings hostconfig
  | EvAdaptContainerSettings hostconfig
  | EvConditionalMountOnStart
  | EvInitializeNetworking
  | EvCreateSpec
  | EvGetLibcontainerdCreateOptions
  | EvResetRestartManager bool
  | EvCreate string string string spec "create_option list"
  | EvUpdateSince string
  | EvToDisk container
  | EvReset bool
  | EvContainerRm string
  | EvReleaseNetwork
  | EvUnmountIpcMounts
  | EvConditionalUnmountOnCleanup
  | EvGetMountID string
  | EvCleanupMountsByID string
  | EvUnmountSecrets
  | EvUnregisterExecCommand string
  | EvUnmountVolumes
  | EvCancelAttachContext

text \<open>
  Modelled from the spec: the collaborators of the Start Orchestrator, the Start
  Sequencer and the Cleanup Coordinator ("consumed collaborator contracts"), whose code
  is outside the files at hand. Each is a parameter: what it answers for the container
  it is handed. Mounting and network initialisation hand the container back as they
  left it; the legacy host-config helpers answer the container (or configuration) as
  merged. \<open>GetContainer\<close> "resolves \<open>containerRef\<close> to a Container; fails with
  NotFoundError if absent". \<open>ErrorDesc\<close> is \<open>grpc.ErrorDesc\<close> of the rpc library: the
  description of an error of the runtime client, which for an error of the rpc system
  is not its whole message.
\<close>

record env =
  GOOS :: string
  HasExperimental :: bool
  GetContainer :: "string \<Rightarrow> error + container"
  setSecurityOptions :: "container \<Rightarrow> hostconfig \<Rightarrow> error + container"
  mergeAndVerifyLogConfig :: "string \<Rightarrow> error + string"
  setHostConfig :: "container \<Rightarrow> hostconfig \<Rightarrow> error + container"
  verifyContainerSettings :: "hostconfig \<Rightarrow> error option"
  adaptContainerSettings :: "hostconfig \<Rightarrow> error + hostconfig"
  conditionalMountOnStart :: "container \<Rightarrow> error option \<times> container"
  initializeNetworking :: "container \<Rightarrow> error option \<times> container"
  createSpec :: "container \<Rightarrow> error + spec"
  getLibcontainerdCreateOptions :: "container \<Rightarrow> error + create_option list"
  CheckpointDir :: "container \<Rightarrow> string"
  containerd_Create :: "string \<Rightarrow> string \<Rightarrow> string \<Rightarrow> spec \<Rightarrow> create_option list \<Rightarrow> error option"
  ErrorDesc :: "error \<Rightarrow> string"
  ToDisk :: "container \<Rightarrow> error option"
  ContainerRm :: "string \<Rightarrow> error option"
  conditionalUnmountOnCleanup :: "container \<Rightarrow> error option"
  GetMountID :: "string \<Rightarrow> error + string"
  UnmountSecrets :: "container \<Rightarrow> error option"
  UnmountVolumes :: "container \<Rightarrow> error option"

section \<open>Cleanup\<close>

text \<open>
  \<open>Daemon.Cleanup\<close> (lines 215-242). It returns nothing: the errors of its steps are
  logged or dropped. The result is the list of calls it makes.
\<close>

definition Cleanup :: "env \<Rightarrow> container \<Rightarrow> event list" where
  "Cleanup d c =
     [EvReleaseNetwork, EvUnmountIpcMounts, EvConditionalUnmountOnCleanup] @
     (case conditionalUnmountOnCleanup d c of
        None \<Rightarrow> []
      | Some err \<Rightarrow>
          EvGetMountID (ID c) #
          (case GetMountID d (ID c) of
             Inr mountid \<Rightarrow> [EvCleanupMountsByID mountid]
           | Inl err' \<Rightarrow> [])) @
     EvUnmountSecrets #
     (case UnmountSecrets d c of
        None \<Rightarrow> []
      | Some err \<Rightarrow>
          [EvLog (ID c @ '' cleanup: failed to unmount secrets: '' @ errorString err)]) @
     map EvUnregisterExecCommand (ExecCommands c) @
     (if BaseFS c \<noteq> '''' then
        EvUnmountVolumes #
        (case UnmountVolumes d c of
           None \<Rightarrow> []
         | Some err \<Rightarrow>
             [EvLog (ID c @ '' cleanup: Failed to umount volumes: '' @ errorString err)])
      else []) @
     [EvCancelAttachContext]"

section \<open>containerStart\<close>

text \<open>
  The deferred function of \<open>containerStart\<close> (lines 114-135), for \<open>err \<noteq> nil\<close>. It
  reads the named result \<open>err\<close> and never assigns it: the \<open>err\<close> of the
  \<open>ContainerRm\<close> call is a variable of its own \<open>if\<close> statement. The result is the
  container and the calls made.
\<close>

definition rollback :: "env \<Rightarrow> error \<Rightarrow> container \<Rightarrow> container \<times> event list" where
  "rollback d err c =
     (let c1 = SetError c err;
          c2 = (if ExitCode c1 = 0 then SetExitCode c1 128 else c1);
          evs = [EvToDisk c2, EvReset False] @ Cleanup d c2
      in if AutoRemove (HostConfig c2) then
           (c2, evs @ [EvUnlock, EvContainerRm (ID c2)] @
                (case ContainerRm d (ID c2) of
                   None \<Rightarrow> []
                 | Some err' \<Rightarrow>
                     [EvLog (''can't remove container '' @ ID c2 @ '': '' @ errorString err')]) @
                [EvLock])
         else (c2, evs))"

text \<open>
  Lines 137-210: the steps of \<open>containerStart\<close> after the deferred function is
  registered. The result is the value of \<open>err\<close> at the \<open>return\<close>, the container
  and the calls made.
\<close>

definition startSteps ::
  "env \<Rightarrow> container \<Rightarrow> string \<Rightarrow> string \<Rightarrow> bool \<Rightarrow> error option \<times> container \<times> event list" where
  "startSteps d c checkpoint checkpointDir resetRestartManager =
     (case conditionalMountOnStart d c of
        (Some err, c1) \<Rightarrow> (Some err, c1, [EvConditionalMountOnStart])
      | (None, c1) \<Rightarrow>
     (let c2 = c1\<lparr>HostConfig := SetDefaultNetModeIfBlank (HostConfig c1)\<rparr> in
      case initializeNetworking d c2 of
        (Some err, c3) \<Rightarrow> (Some err, c3, [EvConditionalMountOnStart, EvInitializeNetworking])
      | (None, c3) \<Rightarrow>
     (case createSpec d c3 of
        Inl err \<Rightarrow>
          (Some err, c3, [EvConditionalMountOnStart, EvInitializeNetworking, EvCreateSpec])
      | Inr spec \<Rightarrow>
     (case getLibcontainerdCreateOptions d c3 of
        Inl err \<Rightarrow>
          (Some err, c3, [EvConditionalMountOnStart, EvInitializeNetworking, EvCreateSpec,
             EvGetLibcontainerdCreateOptions])
      | Inr createOptions \<Rightarrow>
     (let evs = [EvConditionalMountOnStart, EvInitializeNetworking, EvCreateSpec,
             EvGetLibcontainerdCreateOptions] @
             (if resetRestartManager then [EvResetRestartManager True] else []);
          checkpointDir' = (if checkpointDir = '''' then CheckpointDir d c3 else checkpointDir);
          evs' = evs @ [EvCreate (ID c3) checkpoint checkpointDir' spec createOptions]
      in case containerd_Create d (ID c3) checkpoint checkpointDir' spec createOptions of
           Some err \<Rightarrow>
             (let errDesc = ErrorDesc d err;
                  (err', c4) = createFailed c3 errDesc
              in (Some err', c4,
                  evs' @ [EvLog (''Create container failed with error: '' @ errDesc)]))
         | None \<Rightarrow> (None, c3, evs' @ [EvUpdateSince ''start'']))))))"

text \<open>
  \<open>containerStart\<close> (lines 99-211). The container's lock is taken first and its
  release is deferred first, so it runs last, after the rollback.
\<close>

definition containerStart ::
  "env \<Rightarrow> container \<Rightarrow> string \<Rightarrow> string \<Rightarrow> bool \<Rightarrow> error option \<times> container \<times> event list" where
  "containerStart d c checkpoint checkpointDir resetRestartManager =
     (if resetRestartManager \<and> Running c then (None, c, [EvLock, EvUnlock])
      else if RemovalInProgress c \<or> Dead c then
        (Some (Errorf ''Container is marked for removal and cannot be started.''), c,
         [EvLock, EvUnlock])
      else
        (case startSteps d c checkpoint checkpointDir resetRestartManager of
           (None, c', evs) \<Rightarrow> (None, c', [EvLock] @ evs @ [EvUnlock])
         | (Some err, c', evs) \<Rightarrow>
             (let (c'', evs') = rollback d err c'
              in (Some err, c'', [EvLock] @ evs @ evs' @ [EvUnlock]))))"

section \<open>ContainerStart\<close>

text \<open>
  Lines 41-72: the deprecated host configuration of a start request (\<open>None\<close> is Go's
  \<open>nil\<close>). The result is the error of the block, the container and the calls made.
\<close>

definition legacyHostConfig ::
  "env \<Rightarrow> container \<Rightarrow> hostconfig option \<Rightarrow> error option \<times> container \<times> event list" where
  "legacyHostConfig d c hostConfig =
     (if GOOS d \<noteq> ''windows'' then
        (case hostConfig of
           None \<Rightarrow> (None, c, [])
         | Some hc \<Rightarrow>
        (let warn = EvLog ''DEPRECATED: Setting host configuration options when the container starts is deprecated and has been removed in Docker 1.12'';
             oldNetworkMode = NetworkMode (HostConfig c)
         in case setSecurityOptions d c hc of
              Inl err \<Rightarrow> (Some err, c, [warn, EvSetSecurityOptions])
            | Inr c1 \<Rightarrow>
           (case mergeAndVerifyLogConfig d (LogConfig hc) of
              Inl err \<Rightarrow> (Some err, c1, [warn, EvSetSecurityOptions, EvMergeAndVerifyLogConfig])
            | Inr lc \<Rightarrow>
           (case setHostConfig d c1 (hc\<lparr>LogConfig := lc\<rparr>) of
              Inl err \<Rightarrow>
                (Some err, c1,
                 [warn, EvSetSecurityOptions, EvMergeAndVerifyLogConfig, EvSetHostConfig])
            | Inr c2 \<Rightarrow>
           (let evs = [warn, EvSetSecurityOptions, EvMergeAndVerifyLogConfig, EvSetHostConfig];
                newNetworkMode = NetworkMode (HostConfig c2)
            in if oldNetworkMode \<noteq> newNetworkMode then
                 (let c3 = c2\<lparr>Networks := None\<rparr> in
                  case ToDisk d c3 of
                    Some err \<Rightarrow> (Some err, c3, evs @ [EvToDisk c3])
                  | None \<Rightarrow> (None, c3, evs @ [EvToDisk c3, EvInitDNSHostConfig]))
               else (None, c2, evs @ [EvInitDNSHostConfig]))))))
      else
        (case hostConfig of
           None \<Rightarrow> (None, c, [])
         | Some hc \<Rightarrow>
             (Some (Errorf ''Supplying a hostconfig on start is not supported. It should be supplied on create''),
              c, [])))"

text \<open>
  Lines 74-85: the host configuration is verified against the system; it is adapted
  under the guard \<open>hostConfig != nil\<close>.
\<close>

definition verifyAndAdapt ::
  "env \<Rightarrow> container \<Rightarrow> hostconfig option \<Rightarrow> error option \<times> container \<times> event list" where
  "verifyAndAdapt d c hostConfig =
     (case verifyContainerSettings d (HostConfig c) of
        Some err \<Rightarrow> (Some err, c, [EvVerifyContainerSettings (HostConfig c)])
      | None \<Rightarrow>
          (if hostConfig \<noteq> None then
             (case adaptContainerSettings d (HostConfig c) of
                Inl err \<Rightarrow>
                  (Some err, c,
                   [EvVerifyContainerSettings (HostConfig c), EvAdaptContainerSettings (HostConfig c)])
              | Inr hc' \<Rightarrow>
                  (None, c\<lparr>HostConfig := hc'\<rparr>,
                   [EvVerifyContainerSettings (HostConfig c), EvAdaptContainerSettings (HostConfig c)]))
           else (None, c, [EvVerifyContainerSettings (HostConfig c)])))"

text \<open>
  \<open>Daemon.ContainerStart\<close> (lines 22-88). The result is the error returned (\<open>None\<close>
  is \<open>nil\<close>), the container the name resolved to as the call leaves it (\<open>None\<close> when
  the call returned before resolving it or the lookup failed) and the calls made.
\<close>

definition ContainerStart ::
  "env \<Rightarrow> string \<Rightarrow> hostconfig option \<Rightarrow> string \<Rightarrow> string \<Rightarrow>
     error option \<times> container option \<times> event list" where
  "ContainerStart d name hostConfig checkpoint checkpointDir =
     (if checkpoint \<noteq> '''' \<and> \<not> HasExperimental d then
        (Some (BadRequestError (Errorf ''checkpoint is only supported in experimental mode'')),
         None, [])
      else
        (case GetContainer d name of
           Inl err \<Rightarrow> (Some err, None, [])
         | Inr c \<Rightarrow>
        (if IsPaused c then
           (Some (Errorf ''Cannot start a paused container, try unpause instead.''), Some c, [])
         else if IsRunning c then
           (Some (ErrorWithStatusCode (Errorf ''Container already started'') StatusNotModified),
            Some c, [])
         else
           (case legacyHostConfig d c hostConfig of
              (Some err, c1, evs) \<Rightarrow> (Some err, Some c1, evs)
            | (None, c1, evs) \<Rightarrow>
           (case verifyAndAdapt d c1 hostConfig of
              (Some err, c2, evs') \<Rightarrow> (Some err, Some c2, evs @ evs')
            | (None, c2, evs') \<Rightarrow>
           (case containerStart d c2 checkpoint checkpointDir True of
              (err, c3, evs'') \<Rightarrow> (err, Some c3, evs @ evs' @ evs'')))))))"

text \<open>\<open>Daemon.Start\<close> (lines 91-93).\<close>

definition Start :: "env \<Rightarrow> container \<Rightarrow> error option \<times> container \<times> event list" where
  "Start d c = containerStart d c '''' '''' True"

section \<open>The runtime client: the bundle directory\<close>

text \<open>
  The errors of the \<open>os\<close> package that \<open>prepareBundleDir\<close> tells apart:
  \<open>os.IsNotExist\<close> and \<open>os.IsExist\<close> recognise \<open>ENOENT\<close> and \<open>EEXIST\<close>.
\<close>

datatype os_error = ENOENT | EEXIST | OsError string

definition IsNotExist :: "os_error \<Rightarrow> bool" where
  "IsNotExist err = (err = ENOENT)"

definition IsExist :: "os_error \<Rightarrow> bool" where
  "IsExist err = (err = EEXIST)"

text \<open>
  What \<open>os.Stat\<close> answers about a path: the mode (an \<open>os.FileMode\<close>, a \<open>uint32\<close>
  whose lowest bit is the execute permission of others) and the owner.
\<close>

record fileinfo =
  Mode :: "32 word"
  Uid :: int
  Gid :: int

text \<open>
  The file system the runtime client works on: the paths that exist, and the failures
  of \<open>os.Stat\<close> and of the directory creation that are not decided by the paths
  (an I/O error, a missing search permission). \<open>Abs\<close> is \<open>filepath.Abs\<close>, which
  fails when the working directory cannot be read.
\<close>

record filesys =
  files :: "string \<rightharpoonup> fileinfo"
  statFault :: "string \<Rightarrow> os_error option"
  mkdirFault :: "string \<Rightarrow> os_error option"
  Abs :: "string \<Rightarrow> os_error + string"

definition Stat :: "filesys \<Rightarrow> string \<Rightarrow> os_error + fileinfo" where
  "Stat s p =
     (case statFault s p of
        Some err \<Rightarrow> Inl err
      | None \<Rightarrow> (case files s p of None \<Rightarrow> Inl ENOENT | Some fi \<Rightarrow> Inr fi))"

text \<open>
  Modelled from the spec: \<open>idtools.MkdirAs\<close>, which is outside the files at hand. It is
  to "create a uid/gid-suffixed sibling segment" with the derived ownership, and its
  failure "for a reason other than already-exists" is an error of the caller.
\<close>

definition MkdirAs :: "filesys \<Rightarrow> string \<Rightarrow> 32 word \<Rightarrow> int \<Rightarrow> int \<Rightarrow> os_error option \<times> filesys" where
  "MkdirAs s p mode uid gid =
     (case mkdirFault s p of
        Some err \<Rightarrow> (Some err, s)
      | None \<Rightarrow>
          (case files s p of
             Some fi \<Rightarrow> (Some EEXIST, s)
           | None \<Rightarrow> (None, s\<lparr>files := (files s)(p \<mapsto> \<lparr>Mode = mode, Uid = uid, Gid = gid\<rparr>)\<rparr>)))"

text \<open>
  \<open>strings.Split\<close> for a separator of one byte: the pieces between the separators,
  never an empty list.
\<close>

fun Split :: "string \<Rightarrow> char \<Rightarrow> string list" where
  "Split [] sep = [[]]"
| "Split (c # cs) sep =
     (if c = sep then [] # Split cs sep
      else (case Split cs sep of [] \<Rightarrow> [[c]] | x # xs \<Rightarrow> (c # x) # xs))"

text \<open>
  \<open>filepath.Join p d\<close> for a clean absolute path \<open>p\<close> and one segment \<open>d\<close> of a clean
  path (no separator in it, neither \<open>.\<close> nor \<open>..\<close>), which is all \<open>prepareBundleDir\<close>
  joins: an empty element is dropped, and no separator is doubled after the root.
\<close>

definition Join :: "string \<Rightarrow> string \<Rightarrow> string" where
  "Join p d = (if d = [] then p else if p = ''/'' then p @ d else p @ ''/'' @ d)"

text \<open>The verb \<open>%d\<close> of \<open>fmt.Sprintf\<close>: a Go \<open>int\<close> in decimal.\<close>

definition digit :: "nat \<Rightarrow> char" where
  "digit n = ''0123456789'' ! n"

fun digits :: "nat \<Rightarrow> string" where
  "digits n = (if n < 10 then [digit n] else digits (n div 10) @ [digit (n mod 10)])"

declare digits.simps [simp del]

definition Itoa :: "int \<Rightarrow> string" where
  "Itoa i = (if i < 0 then CHR ''-'' # digits (nat (- i)) else digits (nat i))"

text \<open>\<open>fmt.Sprintf("%s.%d.%d", p, uid, gid)\<close>.\<close>

definition idSuffix :: "int \<Rightarrow> int \<Rightarrow> string" where
  "idSuffix uid gid = ''.'' @ Itoa uid @ ''.'' @ Itoa gid"

definition Sprintf_sdd :: "string \<Rightarrow> int \<Rightarrow> int \<Rightarrow> string" where
  "Sprintf_sdd p uid gid = p @ idSuffix uid gid"

text \<open>
  Lines 36-39: the sibling of \<open>p\<close> that carries the ids, created with mode \<open>0700\<close>
  (448). A directory that is there already is no failure.
\<close>

definition makeSibling ::
  "int \<Rightarrow> int \<Rightarrow> string \<Rightarrow> filesys \<Rightarrow> (os_error + string) \<times> filesys" where
  "makeSibling uid gid p s =
     (let p' = Sprintf_sdd p uid gid in
      case MkdirAs s p' 448 uid gid of
        (Some err, s') \<Rightarrow> if \<not> IsExist err then (Inl err, s') else (Inr p', s')
      | (None, s') \<Rightarrow> (Inr p', s'))"

text \<open>
  The body of the loop of \<open>prepareBundleDir\<close> (lines 30-40) for the segment \<open>d\<close>: the
  new value of \<open>p\<close>, or the error returned, and the file system. \<open>os.IsNotExist\<close> of
  no error is false, and the mode is read only when \<open>os.Stat\<close> answered without error.
\<close>

definition bundleSegment ::
  "int \<Rightarrow> int \<Rightarrow> string \<Rightarrow> string \<Rightarrow> filesys \<Rightarrow> (os_error + string) \<times> filesys" where
  "bundleSegment uid gid p d s =
     (let p1 = Join p d in
      case Stat s p1 of
        Inl err \<Rightarrow> if \<not> IsNotExist err then (Inl err, s) else makeSibling uid gid p1 s
      | Inr fi \<Rightarrow> if Mode fi AND 1 = 0 then makeSibling uid gid p1 s else (Inr p1, s))"

text \<open>The loop over the segments (line 29).\<close>

fun bundleWalk ::
  "int \<Rightarrow> int \<Rightarrow> string list \<Rightarrow> string \<Rightarrow> filesys \<Rightarrow> (os_error + string) \<times> filesys" where
  "bundleWalk uid gid [] p s = (Inr p, s)"
| "bundleWalk uid gid (d # ds) p s =
     (case bundleSegment uid gid p d s of
        (Inl err, s') \<Rightarrow> (Inl err, s')
      | (Inr p', s') \<Rightarrow> bundleWalk uid gid ds p' s')"

text \<open>
  \<open>client.prepareBundleDir\<close> (lines 20-43); \<open>stateDir\<close> is \<open>clnt.remote.stateDir\<close>.
  \<open>strings.Split\<close> answers at least one piece, so the slice \<open>[1:]\<close> is its tail.
\<close>

definition prepareBundleDir ::
  "filesys \<Rightarrow> string \<Rightarrow> int \<Rightarrow> int \<Rightarrow> (os_error + string) \<times> filesys" where
  "prepareBundleDir s stateDir uid gid =
     (case Abs s stateDir of
        Inl err \<Rightarrow> (Inl err, s)
      | Inr root \<Rightarrow>
          if uid = 0 \<and> gid = 0 then (Inr root, s)
          else bundleWalk uid gid (tl (Split root CHR ''/'')) ''/'' s)"

text \<open>
  The path the spec describes, read off the file system as it is before the call:
  "walk the path one segment at a time; for each segment, if it does not already exist
  with the required ownership/permission, create a uid/gid-suffixed sibling segment
  (\<open>segment.<uid>.<gid>\<close>)". A segment exists with the required permission when its
  path exists and others may traverse it.
\<close>

definition traversable :: "(string \<rightharpoonup> fileinfo) \<Rightarrow> string \<Rightarrow> bool" where
  "traversable fs p = (case fs p of None \<Rightarrow> False | Some fi \<Rightarrow> Mode fi AND 1 \<noteq> 0)"

fun siblingPath :: "(string \<rightharpoonup> fileinfo) \<Rightarrow> int \<Rightarrow> int \<Rightarrow> string list \<Rightarrow> string \<Rightarrow> string" where
  "siblingPath fs uid gid [] p = p"
| "siblingPath fs uid gid (d # ds) p =
     (if traversable fs (Join p d) then siblingPath fs uid gid ds (Join p d)
      else siblingPath fs uid gid ds (Join p d @ idSuffix uid gid))"

section \<open>The runtime client: exit notifiers\<close>

text \<open>
  An \<open>exitNotifier\<close> (lines 129-134) is used through pointers, and \<open>close\<close> compares
  pointers, so the notifiers live in a store: an address is a natural number. \<open>en_c\<close>
  is the address of the channel \<open>c\<close>; \<open>en_once\<close> tells whether the \<open>sync.Once\<close> has
  run. The one client all notifiers point to is the state itself: \<open>exitNotifiers\<close> is
  \<open>clnt.exitNotifiers\<close>, and \<open>chanClosed\<close> tells which channels are closed.
\<close>

record exitNotifier =
  en_id :: string
  en_c :: nat
  en_once :: bool

record client =
  notifiers :: "nat \<rightharpoonup> exitNotifier"
  exitNotifiers :: "string \<rightharpoonup> nat"
  chanClosed :: "nat \<Rightarrow> bool"

datatype panic = NilPointerDereference | CloseOfClosedChannel

text \<open>The builtin \<open>close\<close> of a channel: closing a closed channel panics.\<close>

definition close_chan :: "client \<Rightarrow> nat \<Rightarrow> panic + client" where
  "close_chan s ch =
     (if chanClosed s ch then Inl CloseOfClosedChannel
      else Inr (s\<lparr>chanClosed := (chanClosed s)(ch := True)\<rparr>))"

text \<open>
  \<open>exitNotifier.close\<close> (lines 136-145) on the notifier at address \<open>en\<close>. \<open>once.Do\<close>
  runs its function on the first call only. The mutex around the registry is not
  modelled: the calls are taken one after the other.
\<close>

definition en_close :: "client \<Rightarrow> nat \<Rightarrow> panic + client" where
  "en_close s en =
     (case notifiers s en of
        None \<Rightarrow> Inl NilPointerDereference
      | Some n \<Rightarrow>
          if en_once n then Inr s
          else
            (case close_chan (s\<lparr>notifiers := (notifiers s)(en \<mapsto> n\<lparr>en_once := True\<rparr>)\<rparr>) (en_c n) of
               Inl pnc \<Rightarrow> Inl pnc
             | Inr s' \<Rightarrow>
                 if exitNotifiers s' (en_id n) = Some en then
                   Inr (s'\<lparr>exitNotifiers := (exitNotifiers s')(en_id n := None)\<rparr>)
                 else Inr s'))"

text \<open>\<open>exitNotifier.wait\<close> (lines 146-148): the channel of the notifier.\<close>

definition en_wait :: "client \<Rightarrow> nat \<Rightarrow> panic + nat" where
  "en_wait s en =
     (case notifiers s en of None \<Rightarrow> Inl NilPointerDereference | Some n \<Rightarrow> Inr (en_c n))"

text \<open>\<open>close\<close> called \<open>k\<close> times in a row on the same notifier.\<close>

fun closeTimes :: "nat \<Rightarrow> client \<Rightarrow> nat \<Rightarrow> panic + client" where
  "closeTimes 0 s en = Inr s"
| "closeTimes (Suc k) s en =
     (case en_close s en of Inl pnc \<Rightarrow> Inl pnc | Inr s' \<Rightarrow> closeTimes k s' en)"

section \<open>Example values\<close>

text \<open>
  A stopped container and a daemon whose collaborators all succeed; the theorems below
  are instantiated at them.
\<close>

definition sampleHostConfig :: hostconfig where
  "sampleHostConfig =
     \<lparr>NetworkMode = ''default'', AutoRemove = False, LogConfig = ''json-file'', SecurityOpt = []\<rparr>"

definition sampleContainer :: container where
  "sampleContainer =
     \<lparr>ID = ''275dfb25283f'', Path = ''bash'', Running = False, Paused = False,
      RemovalInProgress = False, Dead = False, exitCode = 0, Error = '''',
      HostConfig = sampleHostConfig, Networks = None, BaseFS = '''', ExecCommands = []\<rparr>"

definition sampleEnv :: env where
  "sampleEnv =
     \<lparr>GOOS = ''linux'', HasExperimental = False,
      GetContainer = (\<lambda>name. if name = ''275dfb25283f'' then Inr sampleContainer
                              else Inl (NotFoundError name)),
      setSecurityOptions =
        (\<lambda>c hc. Inr (c\<lparr>HostConfig := (HostConfig c)\<lparr>SecurityOpt := SecurityOpt hc\<rparr>\<rparr>)),
      mergeAndVerifyLogConfig = (\<lambda>lc. Inr lc),
      setHostConfig = (\<lambda>c hc. Inr (c\<lparr>HostConfig := hc\<rparr>)),
      verifyContainerSettings = (\<lambda>hc. None),
      adaptContainerSettings = (\<lambda>hc. Inr hc),
      conditionalMountOnStart = (\<lambda>c. (None, c\<lparr>BaseFS := ''/overlay2/merged''\<rparr>)),
      initializeNetworking = (\<lambda>c. (None, c)),
      createSpec = (\<lambda>c. Inr ''spec''),
      getLibcontainerdCreateOptions = (\<lambda>c. Inr [''docker-runc'']),
      CheckpointDir = (\<lambda>c. ''/containers/'' @ ID c @ ''/checkpoints''),
      containerd_Create = (\<lambda>containerID checkpoint checkpointDir spec options. None),
      ErrorDesc = errorString,
      ToDisk = (\<lambda>c. None),
      ContainerRm = (\<lambda>containerID. None),
      conditionalUnmountOnCleanup = (\<lambda>c. None),
      GetMountID = (\<lambda>containerID. Inr ''mount-id''),
      UnmountSecrets = (\<lambda>c. None),
      UnmountVolumes = (\<lambda>c. None)\<rparr>"

text \<open>The daemon whose runtime client fails every \<open>Create\<close> with the given error.\<close>

definition failingCreate :: "error \<Rightarrow> env" where
  "failingCreate err =
     sampleEnv\<lparr>containerd_Create := (\<lambda>containerID checkpoint checkpointDir spec options. Some err)\<rparr>"

text \<open>The daemons in which one of the steps before \<open>Create\<close> fails with the given error.\<close>

definition failingMount :: "error \<Rightarrow> env" where
  "failingMount err = sampleEnv\<lparr>conditionalMountOnStart := (\<lambda>c. (Some err, c))\<rparr>"

definition failingNetwork :: "error \<Rightarrow> env" where
  "failingNetwork err = sampleEnv\<lparr>initializeNetworking := (\<lambda>c. (Some err, c))\<rparr>"

definition failingSpec :: "error \<Rightarrow> env" where
  "failingSpec err = sampleEnv\<lparr>createSpec := (\<lambda>c. Inl err)\<rparr>"

definition failingOptions :: "error \<Rightarrow> env" where
  "failingOptions err = sampleEnv\<lparr>getLibcontainerdCreateOptions := (\<lambda>c. Inl err)\<rparr>"

text \<open>The daemon in which the name \<open>name\<close> resolves to the container \<open>c\<close>.\<close>

definition resolving :: "string \<Rightarrow> container \<Rightarrow> env" where
  "resolving name c = sampleEnv\<lparr>GetContainer := (\<lambda>n. if n = name then Inr c else Inl (NotFoundError n))\<rparr>"

text \<open>The events of lines 74-85: the verification and the adaptation of the settings.\<close>

definition isSettingsCheck :: "event \<Rightarrow> bool" where
  "isSettingsCheck e =
     (case e of
        EvVerifyContainerSettings hc \<Rightarrow> True
      | EvAdaptContainerSettings hc \<Rightarrow> True
      | _ \<Rightarrow> False)"

text \<open>
  A client with two notifiers for the container \<open>c1\<close>: the one at address 0 is from an
  earlier start, the one at address 1 is the registered one. Both channels are open.
\<close>

definition sampleClient :: client where
  "sampleClient =
     \<lparr>notifiers = [0 \<mapsto> \<lparr>en_id = ''c1'', en_c = 10, en_once = False\<rparr>,
                   1 \<mapsto> \<lparr>en_id = ''c1'', en_c = 11, en_once = False\<rparr>],
      exitNotifiers = [''c1'' \<mapsto> 1],
      chanClosed = (\<lambda>ch. False)\<rparr>"

text \<open>
  The state of the notifiers as the program keeps it: the channel of a notifier is closed
  exactly when its \<open>sync.Once\<close> has run, and no two notifiers have the same channel.
\<close>

definition wellFormed :: "client \<Rightarrow> bool" where
  "wellFormed s =
     ((\<forall>a n. notifiers s a = Some n \<longrightarrow> en_once n = chanClosed s (en_c n)) \<and>
      (\<forall>a b n m. notifiers s a = Some n \<and> notifiers s b = Some m \<and> a \<noteq> b \<longrightarrow>
         en_c n \<noteq> en_c m))"

section \<open>Describing the bundle path\<close>

text \<open>
  A file system on which \<open>os.Stat\<close> and the directory creation fail for no reason
  other than the paths that exist.
\<close>

definition faultless :: "filesys \<Rightarrow> bool" where
  "faultless s = (\<forall>p. statFault s p = None \<and> mkdirFault s p = None)"

text \<open>
  A clean absolute path other than the root directory, by its segments: every segment
  is preceded by one separator, none is empty and none holds a separator.
\<close>

definition pathOf :: "string list \<Rightarrow> string" where
  "pathOf segs = concat (map ((#) CHR ''/'') segs)"

definition cleanSegments :: "string list \<Rightarrow> bool" where
  "cleanSegments segs = (segs \<noteq> [] \<and> (\<forall>d\<in>set segs. d \<noteq> [] \<and> CHR ''/'' \<notin> set d))"

text \<open>No segment of the walk from \<open>p\<close> along \<open>ds\<close> is replaced.\<close>

fun unaffected :: "(string \<rightharpoonup> fileinfo) \<Rightarrow> string list \<Rightarrow> string \<Rightarrow> bool" where
  "unaffected fs [] p = True"
| "unaffected fs (d # ds) p = (traversable fs (Join p d) \<and> unaffected fs ds (Join p d))"

text \<open>
  Two file systems with the state directory \<open>/run/libcontainerd\<close>, owned by root (uid
  and gid 0) in both: with mode \<open>0700\<close> (448) in the first, with mode \<open>0755\<close> (493) in
  the second. \<open>/run\<close> has mode \<open>0755\<close>.
\<close>

definition sampleFiles :: filesys where
  "sampleFiles =
     \<lparr>files = [''/run'' \<mapsto> \<lparr>Mode = 493, Uid = 0, Gid = 0\<rparr>,
               ''/run/libcontainerd'' \<mapsto> \<lparr>Mode = 448, Uid = 0, Gid = 0\<rparr>],
      statFault = (\<lambda>p. None), mkdirFault = (\<lambda>p. None), Abs = (\<lambda>p. Inr p)\<rparr>"

definition sampleOpenFiles :: filesys where
  "sampleOpenFiles =
     \<lparr>files = [''/run'' \<mapsto> \<lparr>Mode = 493, Uid = 0, Gid = 0\<rparr>,
               ''/run/libcontainerd'' \<mapsto> \<lparr>Mode = 493, Uid = 0, Gid = 0\<rparr>],
      statFault = (\<lambda>p. None), mkdirFault = (\<lambda>p. None), Abs = (\<lambda>p. Inr p)\<rparr>"

section \<open>Evaluating the string predicates\<close>

lemmas str_eval = contains_def ToLower_def isUpper_def EACCES_Error_def ENOTDIR_Error_def
  cmdNotFound_def permissionDenied_def notADirectory_def

section \<open>The rollback of containerStart\<close>

lemma rollback_eq:
  "rollback d err c =
     (c\<lparr>Error := errorString err, exitCode := (if exitCode c = 0 then 128 else exitCode c)\<rparr>,
      [EvToDisk (c\<lparr>Error := errorString err, exitCode := (if exitCode c = 0 then 128 else exitCode c)\<rparr>),
       EvReset False] @
      Cleanup d (c\<lparr>Error := errorString err, exitCode := (if exitCode c = 0 then 128 else exitCode c)\<rparr>) @
      (if AutoRemove (HostConfig c) then
         [EvUnlock, EvContainerRm (ID c)] @
         (case ContainerRm d (ID c) of
            None \<Rightarrow> []
          | Some err' \<Rightarrow> [EvLog (''can't remove container '' @ ID c @ '': '' @ errorString err')]) @
         [EvLock]
       else []))"
  by (simp add: rollback_def SetError_def ExitCode_def SetExitCode_def Let_def split: option.split)

lemma createFailed_error:
  "fst (createFailed c errDesc) =
     Errorf (if notADirectory errDesc then errDesc @ mountHint else errDesc)"
  by (simp add: createFailed_def Let_def)

text \<open>
  C1, as amended. Once the deferred function of \<open>containerStart\<close> is registered (the
  call did not return for a running container, nor for one marked for removal or dead),
  a failure of the mount, of the network initialisation, of the spec build or of the
  create options, each after the steps before it succeeded, makes \<open>containerStart\<close>
  return the error of that step unchanged. A failure of \<open>Create\<close> makes it return not
  the error of \<open>Create\<close> but the error built anew from its description, with the hint
  appended when the description has the not-a-directory text. In all five cases the
  rollback takes the error that is returned: the container has its message recorded;
  its exit code is 128 if it was 0 after the steps and is left as it was otherwise, so
  it is not 0 on return; after the calls of the steps the container is persisted in
  that state, then \<open>Reset(false)\<close> and \<open>Cleanup\<close> run, then the forced removal when
  \<open>AutoRemove\<close> is set, whose failure is only logged; the error returned is not
  changed by any of this.
\<close>

theorem containerStart_step_errors:
  assumes "\<not> (resetRestartManager \<and> Running c)"
      and "\<not> (RemovalInProgress c \<or> Dead c)"
  shows
    "let recorded = (\<lambda>err c'. c'\<lparr>Error := errorString err,
                          exitCode := (if exitCode c' = 0 then 128 else exitCode c')\<rparr>);
         undo = (\<lambda>err c'.
                   [EvToDisk (recorded err c'), EvReset False] @ Cleanup d (recorded err c') @
                   (if AutoRemove (HostConfig c') then
                      [EvUnlock, EvContainerRm (ID c')] @
                      (case ContainerRm d (ID c') of
                         None \<Rightarrow> []
                       | Some err' \<Rightarrow>
                           [EvLog (''can't remove container '' @ ID c' @ '': '' @ errorString err')]) @
                      [EvLock]
                    else []));
         c2 = c1\<lparr>HostConfig := SetDefaultNetModeIfBlank (HostConfig c1)\<rparr>;
         dir = (if checkpointDir = [] then CheckpointDir d c3 else checkpointDir);
         desc = ErrorDesc d e;
         err5 = Errorf (if notADirectory desc then desc @ mountHint else desc);
         c4 = snd (createFailed c3 desc)
     in
       exitCode (recorded err c') \<noteq> 0 \<and> Error (recorded err c') = errorString err \<and>
       (conditionalMountOnStart d c = (Some err, c1) \<longrightarrow>
          containerStart d c checkpoint checkpointDir resetRestartManager =
            (Some err, recorded err c1,
             [EvLock, EvConditionalMountOnStart] @ undo err c1 @ [EvUnlock])) \<and>
       (conditionalMountOnStart d c = (None, c1) \<and>
        initializeNetworking d c2 = (Some err, c3) \<longrightarrow>
          containerStart d c checkpoint checkpointDir resetRestartManager =
            (Some err, recorded err c3,
             [EvLock, EvConditionalMountOnStart, EvInitializeNetworking] @ undo err c3 @
             [EvUnlock])) \<and>
       (conditionalMountOnStart d c = (None, c1) \<and>
        initializeNetworking d c2 = (None, c3) \<and>
        createSpec d c3 = Inl err \<longrightarrow>
          containerStart d c checkpoint checkpointDir resetRestartManager =
            (Some err, recorded err c3,
             [EvLock, EvConditionalMountOnStart, EvInitializeNetworking, EvCreateSpec] @
             undo err c3 @ [EvUnlock])) \<and>
       (conditionalMountOnStart d c = (None, c1) \<and>
        initializeNetworking d c2 = (None, c3) \<and>
        createSpec d c3 = Inr spec \<and>
        getLibcontainerdCreateOptions d c3 = Inl err \<longrightarrow>
          containerStart d c checkpoint checkpointDir resetRestartManager =
            (Some err, recorded err c3,
             [EvLock, EvConditionalMountOnStart, EvInitializeNetworking, EvCreateSpec,
              EvGetLibcontainerdCreateOptions] @
             undo err c3 @ [EvUnlock])) \<and>
       (conditionalMountOnStart d c = (None, c1) \<and>
        initializeNetworking d c2 = (None, c3) \<and>
        createSpec d c3 = Inr spec \<and>
        getLibcontainerdCreateOptions d c3 = Inr options \<and>
        containerd_Create d (ID c3) checkpoint dir spec options = Some e \<longrightarrow>
          containerStart d c checkpoint checkpointDir resetRestartManager =
            (Some err5, recorded err5 c4,
             [EvLock, EvConditionalMountOnStart, EvInitializeNetworking, EvCreateSpec,
              EvGetLibcontainerdCreateOptions] @
             (if resetRestartManager then [EvResetRestartManager True] else []) @
             [EvCreate (ID c3) checkpoint dir spec options,
              EvLog (''Create container failed with error: '' @ desc)] @
             undo err5 c4 @ [EvUnlock]))"
proof -
  have gate: "containerStart d c checkpoint checkpointDir resetRestartManager =
      (case startSteps d c checkpoint checkpointDir resetRestartManager of
         (None, c', evs) \<Rightarrow> (None, c', [EvLock] @ evs @ [EvUnlock])
       | (Some err, c', evs) \<Rightarrow>
           (let (c'', evs') = rollback d err c'
            in (Some err, c'', [EvLock] @ evs @ evs' @ [EvUnlock])))"
  proof -
    have "\<not> (resetRestartManager \<and> Running c)" "\<not> (RemovalInProgress c \<or> Dead c)"
      using assms by blast+
    then show ?thesis unfolding containerStart_def by (simp only: if_False)
  qed
  have mount: "startSteps d c checkpoint checkpointDir resetRestartManager =
      (Some err, c1, [EvConditionalMountOnStart])"
    if "conditionalMountOnStart d c = (Some err, c1)"
    using that by (simp add: startSteps_def)
  have net: "startSteps d c checkpoint checkpointDir resetRestartManager =
      (Some err, c3, [EvConditionalMountOnStart, EvInitializeNetworking])"
    if "conditionalMountOnStart d c = (None, c1)"
       "initializeNetworking d (c1\<lparr>HostConfig := SetDefaultNetModeIfBlank (HostConfig c1)\<rparr>) =
          (Some err, c3)"
    using that by (simp add: startSteps_def)
  have spec: "startSteps d c checkpoint checkpointDir resetRestartManager =
      (Some err, c3, [EvConditionalMountOnStart, EvInitializeNetworking, EvCreateSpec])"
    if "conditionalMountOnStart d c = (None, c1)"
       "initializeNetworking d (c1\<lparr>HostConfig := SetDefaultNetModeIfBlank (HostConfig c1)\<rparr>) =
          (None, c3)"
       "createSpec d c3 = Inl err"
    using that by (simp add: startSteps_def)
  have opts: "startSteps d c checkpoint checkpointDir resetRestartManager =
      (Some err, c3, [EvConditionalMountOnStart, EvInitializeNetworking, EvCreateSpec,
         EvGetLibcontainerdCreateOptions])"
    if "conditionalMountOnStart d c = (None, c1)"
       "initializeNetworking d (c1\<lparr>HostConfig := SetDefaultNetModeIfBlank (HostConfig c1)\<rparr>) =
          (None, c3)"
       "createSpec d c3 = Inr spec"
       "getLibcontainerdCreateOptions d c3 = Inl err"
    using that by (simp add: startSteps_def)
  have create: "startSteps d c checkpoint checkpointDir resetRestartManager =
      (Some (Errorf (if notADirectory (ErrorDesc d e) then ErrorDesc d e @ mountHint
                     else ErrorDesc d e)),
       snd (createFailed c3 (ErrorDesc d e)),
       [EvConditionalMountOnStart, EvInitializeNetworking, EvCreateSpec,
        EvGetLibcontainerdCreateOptions] @
       (if resetRestartManager then [EvResetRestartManager True] else []) @
       [EvCreate (ID c3) checkpoint
          (if checkpointDir = [] then CheckpointDir d c3 else checkpointDir) spec options,
        EvLog (''Create container failed with error: '' @ ErrorDesc d e)])"
    if "conditionalMountOnStart d c = (None, c1)"
       "initializeNetworking d (c1\<lparr>HostConfig := SetDefaultNetModeIfBlank (HostConfig c1)\<rparr>) =
          (None, c3)"
       "createSpec d c3 = Inr spec"
       "getLibcontainerdCreateOptions d c3 = Inr options"
       "containerd_Create d (ID c3) checkpoint
          (if checkpointDir = [] then CheckpointDir d c3 else checkpointDir) spec options = Some e"
    using that createFailed_error [of c3 "ErrorDesc d e"]
    by (auto simp: startSteps_def Let_def split: prod.splits)
  show ?thesis
    unfolding Let_def
    by (intro conjI impI; (elim conjE)?)
       (simp_all add: gate mount net spec opts create rollback_eq)
qed

theorem containerStart_step_errors_witness:
  "\<not> (True \<and> Running sampleContainer) \<and>
   \<not> (RemovalInProgress sampleContainer \<or> Dead sampleContainer) \<and>
   conditionalMountOnStart (failingMount (Errorf ''mount failed'')) sampleContainer =
     (Some (Errorf ''mount failed''), sampleContainer) \<and>
   containerStart (failingMount (Errorf ''mount failed'')) sampleContainer [] [] True =
     (Some (Errorf ''mount failed''),
      sampleContainer\<lparr>Error := ''mount failed'', exitCode := 128\<rparr>,
      [EvLock, EvConditionalMountOnStart,
       EvToDisk (sampleContainer\<lparr>Error := ''mount failed'', exitCode := 128\<rparr>), EvReset False,
       EvReleaseNetwork, EvUnmountIpcMounts, EvConditionalUnmountOnCleanup, EvUnmountSecrets,
       EvCancelAttachContext, EvUnlock]) \<and>
   conditionalMountOnStart (failingCreate (Errorf ''connection refused'')) sampleContainer =
     (None, sampleContainer\<lparr>BaseFS := ''/overlay2/merged''\<rparr>) \<and>
   initializeNetworking (failingCreate (Errorf ''connection refused''))
     (sampleContainer\<lparr>BaseFS := ''/overlay2/merged''\<rparr>) =
     (None, sampleContainer\<lparr>BaseFS := ''/overlay2/merged''\<rparr>) \<and>
   createSpec (failingCreate (Errorf ''connection refused''))
     (sampleContainer\<lparr>BaseFS := ''/overlay2/merged''\<rparr>) = Inr ''spec'' \<and>
   getLibcontainerdCreateOptions (failingCreate (Errorf ''connection refused''))
     (sampleContainer\<lparr>BaseFS := ''/overlay2/merged''\<rparr>) = Inr [''docker-runc''] \<and>
   containerd_Create (failingCreate (Errorf ''connection refused'')) ''275dfb25283f'' []
     ''/containers/275dfb25283f/checkpoints'' ''spec'' [''docker-runc''] =
     Some (Errorf ''connection refused'') \<and>
   fst (containerStart (failingCreate (Errorf ''connection refused'')) sampleContainer [] [] True) =
     Some (Errorf ''connection refused'') \<and>
   Error (fst (snd (containerStart (failingCreate (Errorf ''connection refused''))
     sampleContainer [] [] True))) = ''connection refused'' \<and>
   exitCode (fst (snd (containerStart (failingCreate (Errorf ''connection refused''))
     sampleContainer [] [] True))) = 128 \<and>
   initializeNetworking (failingNetwork (Errorf ''no network''))
     (sampleContainer\<lparr>BaseFS := ''/overlay2/merged''\<rparr>) =
     (Some (Errorf ''no network''), sampleContainer\<lparr>BaseFS := ''/overlay2/merged''\<rparr>) \<and>
   fst (containerStart (failingNetwork (Errorf ''no network'')) sampleContainer [] [] True) =
     Some (Errorf ''no network'') \<and>
   createSpec (failingSpec (Errorf ''no spec''))
     (sampleContainer\<lparr>BaseFS := ''/overlay2/merged''\<rparr>) = Inl (Errorf ''no spec'') \<and>
   fst (containerStart (failingSpec (Errorf ''no spec'')) sampleContainer [] [] True) =
     Some (Errorf ''no spec'') \<and>
   getLibcontainerdCreateOptions (failingOptions (Errorf ''no runtime''))
     (sampleContainer\<lparr>BaseFS := ''/overlay2/merged''\<rparr>) = Inl (Errorf ''no runtime'') \<and>
   fst (containerStart (failingOptions (Errorf ''no runtime'')) sampleContainer [] [] True) =
     Some (Errorf ''no runtime'')"
proof -
  let ?dm = "failingMount (Errorf ''mount failed'')"
  let ?dc = "failingCreate (Errorf ''connection refused'')"
  let ?c1 = "sampleContainer\<lparr>BaseFS := ''/overlay2/merged''\<rparr>"
  have h1: "\<not> (True \<and> Running sampleContainer)"
    by (simp add: sampleContainer_def)
  have h2: "\<not> (RemovalInProgress sampleContainer \<or> Dead sampleContainer)"
    by (simp add: sampleContainer_def)
  have m1: "conditionalMountOnStart ?dm sampleContainer = (Some (Errorf ''mount failed''), sampleContainer)"
    by (simp add: failingMount_def)
  have cl: "Cleanup ?dm (sampleContainer\<lparr>Error := ''mount failed'', exitCode := 128\<rparr>) =
      [EvReleaseNetwork, EvUnmountIpcMounts, EvConditionalUnmountOnCleanup, EvUnmountSecrets,
       EvCancelAttachContext]"
    by (simp add: Cleanup_def failingMount_def sampleEnv_def sampleContainer_def)
  have ar: "\<not> AutoRemove (HostConfig sampleContainer)" "exitCode sampleContainer = 0"
    by (simp_all add: sampleContainer_def sampleHostConfig_def)
  have r1: "containerStart ?dm sampleContainer [] [] True =
     (Some (Errorf ''mount failed''),
      sampleContainer\<lparr>Error := ''mount failed'', exitCode := 128\<rparr>,
      [EvLock, EvConditionalMountOnStart,
       EvToDisk (sampleContainer\<lparr>Error := ''mount failed'', exitCode := 128\<rparr>), EvReset False,
       EvReleaseNetwork, EvUnmountIpcMounts, EvConditionalUnmountOnCleanup, EvUnmountSecrets,
       EvCancelAttachContext, EvUnlock])"
    using containerStart_step_errors [OF h1 h2, where d = ?dm and err = "Errorf ''mount failed''"
        and ?c1.0 = sampleContainer and checkpoint = "[]" and checkpointDir = "[]"] m1
    by (simp add: Let_def cl ar)
  have c1: "conditionalMountOnStart ?dc sampleContainer = (None, ?c1)"
    by (simp add: failingCreate_def sampleEnv_def)
  have c2: "?c1\<lparr>HostConfig := SetDefaultNetModeIfBlank (HostConfig ?c1)\<rparr> = ?c1"
    by (simp add: sampleContainer_def sampleHostConfig_def SetDefaultNetModeIfBlank_def)
  have c3: "initializeNetworking ?dc ?c1 = (None, ?c1)"
    by (simp add: failingCreate_def sampleEnv_def)
  have c4: "createSpec ?dc ?c1 = Inr ''spec''"
    by (simp add: failingCreate_def sampleEnv_def)
  have c5: "getLibcontainerdCreateOptions ?dc ?c1 = Inr [''docker-runc'']"
    by (simp add: failingCreate_def sampleEnv_def)
  have c6: "containerd_Create ?dc ''275dfb25283f'' [] ''/containers/275dfb25283f/checkpoints''
      ''spec'' [''docker-runc''] = Some (Errorf ''connection refused'')"
    by (simp add: failingCreate_def)
  have id: "ID ?c1 = ''275dfb25283f''" "CheckpointDir ?dc ?c1 = ''/containers/275dfb25283f/checkpoints''"
    by (simp_all add: failingCreate_def sampleEnv_def sampleContainer_def)
  have desc: "ErrorDesc ?dc (Errorf ''connection refused'') = ''connection refused''"
    by (simp add: failingCreate_def sampleEnv_def)
  have nnd: "\<not> notADirectory ''connection refused''" by (simp add: str_eval)
  have npd: "\<not> permissionDenied ''connection refused''" by (simp add: str_eval)
  have ncf: "\<not> cmdNotFound ?c1 ''connection refused''" by (simp add: str_eval)
  have cf: "snd (createFailed ?c1 ''connection refused'') = ?c1"
    using nnd npd ncf by (simp add: createFailed_def)
  have ex: "exitCode ?c1 = 0" by (simp add: sampleContainer_def)
  have f2: "initializeNetworking ?dc
      (?c1\<lparr>HostConfig := SetDefaultNetModeIfBlank (HostConfig ?c1)\<rparr>) = (None, ?c1)"
    by (simp add: failingCreate_def sampleEnv_def sampleContainer_def sampleHostConfig_def
        SetDefaultNetModeIfBlank_def)
  have f5: "containerd_Create ?dc (ID ?c1) []
      (if ([]::string) = [] then CheckpointDir ?dc ?c1 else []) ''spec'' [''docker-runc''] =
      Some (Errorf ''connection refused'')"
    by (simp add: failingCreate_def)
  note t = containerStart_step_errors [OF h1 h2, where d = ?dc and ?c1.0 = ?c1 and ?c3.0 = ?c1
        and checkpoint = "[]" and checkpointDir = "[]" and spec = "''spec''"
        and options = "[''docker-runc'']" and e = "Errorf ''connection refused''",
        unfolded Let_def, THEN conjunct2, THEN conjunct2, THEN conjunct2, THEN conjunct2,
        THEN conjunct2, THEN conjunct2, THEN mp]
  have r2: "fst (containerStart ?dc sampleContainer [] [] True) = Some (Errorf ''connection refused'') \<and>
      fst (snd (containerStart ?dc sampleContainer [] [] True)) =
        ?c1\<lparr>Error := ''connection refused'', exitCode := 128\<rparr>"
    using t [OF conjI [OF c1 conjI [OF f2 conjI [OF c4 conjI [OF c5 f5]]]]]
    by (simp add: desc nnd cf ex)
  let ?dn = "failingNetwork (Errorf ''no network'')"
  let ?ds = "failingSpec (Errorf ''no spec'')"
  let ?do = "failingOptions (Errorf ''no runtime'')"
  have n1: "conditionalMountOnStart ?dn sampleContainer = (None, ?c1)"
    by (simp add: failingNetwork_def sampleEnv_def)
  have n2: "initializeNetworking ?dn
      (?c1\<lparr>HostConfig := SetDefaultNetModeIfBlank (HostConfig ?c1)\<rparr>) =
      (Some (Errorf ''no network''), ?c1)"
    by (simp add: failingNetwork_def sampleEnv_def sampleContainer_def sampleHostConfig_def
        SetDefaultNetModeIfBlank_def)
  have n3: "initializeNetworking ?dn ?c1 = (Some (Errorf ''no network''), ?c1)"
    by (simp add: failingNetwork_def)
  have r3: "fst (containerStart ?dn sampleContainer [] [] True) = Some (Errorf ''no network'')"
    using containerStart_step_errors [OF h1 h2, where d = ?dn and ?c1.0 = ?c1 and ?c3.0 = ?c1
        and err = "Errorf ''no network''" and checkpoint = "[]" and checkpointDir = "[]",
        unfolded Let_def, THEN conjunct2, THEN conjunct2, THEN conjunct2, THEN conjunct1,
        THEN mp, OF conjI [OF n1 n2]]
    by simp
  have s1: "conditionalMountOnStart ?ds sampleContainer = (None, ?c1)"
    by (simp add: failingSpec_def sampleEnv_def)
  have s2: "initializeNetworking ?ds
      (?c1\<lparr>HostConfig := SetDefaultNetModeIfBlank (HostConfig ?c1)\<rparr>) = (None, ?c1)"
    by (simp add: failingSpec_def sampleEnv_def sampleContainer_def sampleHostConfig_def
        SetDefaultNetModeIfBlank_def)
  have s3: "createSpec ?ds ?c1 = Inl (Errorf ''no spec'')"
    by (simp add: failingSpec_def)
  have r4: "fst (containerStart ?ds sampleContainer [] [] True) = Some (Errorf ''no spec'')"
    using containerStart_step_errors [OF h1 h2, where d = ?ds and ?c1.0 = ?c1 and ?c3.0 = ?c1
        and err = "Errorf ''no spec''" and checkpoint = "[]" and checkpointDir = "[]",
        unfolded Let_def, THEN conjunct2, THEN conjunct2, THEN conjunct2, THEN conjunct2,
        THEN conjunct1, THEN mp, OF conjI [OF s1 conjI [OF s2 s3]]]
    by simp
  have o1: "conditionalMountOnStart ?do sampleContainer = (None, ?c1)"
    by (simp add: failingOptions_def sampleEnv_def)
  have o2: "initializeNetworking ?do
      (?c1\<lparr>HostConfig := SetDefaultNetModeIfBlank (HostConfig ?c1)\<rparr>) = (None, ?c1)"
    by (simp add: failingOptions_def sampleEnv_def sampleContainer_def sampleHostConfig_def
        SetDefaultNetModeIfBlank_def)
  have o3: "createSpec ?do ?c1 = Inr ''spec''"
    by (simp add: failingOptions_def sampleEnv_def)
  have o4: "getLibcontainerdCreateOptions ?do ?c1 = Inl (Errorf ''no runtime'')"
    by (simp add: failingOptions_def)
  have r5: "fst (containerStart ?do sampleContainer [] [] True) = Some (Errorf ''no runtime'')"
    using containerStart_step_errors [OF h1 h2, where d = ?do and ?c1.0 = ?c1 and ?c3.0 = ?c1
        and err = "Errorf ''no runtime''" and checkpoint = "[]" and checkpointDir = "[]"
        and spec = "''spec''",
        unfolded Let_def, THEN conjunct2, THEN conjunct2, THEN conjunct2, THEN conjunct2,
        THEN conjunct2, THEN conjunct1, THEN mp, OF conjI [OF o1 conjI [OF o2 conjI [OF o3 o4]]]]
    by simp
  show ?thesis using h1 h2 m1 r1 c1 c3 c4 c5 c6 r2 n3 r3 s3 r4 o4 r5 by simp
qed

text \<open>
  C1 as stated fails for the step \<open>Create\<close>. When \<open>Create\<close> fails with a description
  that has the not-a-directory text, the error returned and the message recorded carry
  the hint, so they are not the error \<open>Create\<close> returned; when it fails with an error
  that carries a status, the error returned is a plain one with the same description.
\<close>

theorem containerStart_create_error_rebuilt:
  "containerd_Create (failingCreate (Errorf ''mount /data: not a directory'')) ''275dfb25283f'' []
     ''/containers/275dfb25283f/checkpoints'' ''spec'' [''docker-runc''] =
     Some (Errorf ''mount /data: not a directory'') \<and>
   fst (containerStart (failingCreate (Errorf ''mount /data: not a directory''))
          sampleContainer [] [] True) =
     Some (Errorf (''mount /data: not a directory'' @ mountHint)) \<and>
   Errorf (''mount /data: not a directory'' @ mountHint) \<noteq> Errorf ''mount /data: not a directory'' \<and>
   Error (fst (snd (containerStart (failingCreate (Errorf ''mount /data: not a directory''))
          sampleContainer [] [] True))) =
     ''mount /data: not a directory'' @ mountHint \<and>
   fst (containerStart (failingCreate (ErrorWithStatusCode (Errorf ''boom'') 500))
          sampleContainer [] [] True) = Some (Errorf ''boom'') \<and>
   Errorf ''boom'' \<noteq> ErrorWithStatusCode (Errorf ''boom'') 500"
proof -
  let ?m = "''mount /data: not a directory''"
  have nd: "notADirectory ?m" by (simp add: str_eval)
  have npd: "\<not> permissionDenied ?m" by (simp add: str_eval)
  have ncf: "\<not> cmdNotFound c ?m" for c by (simp add: str_eval)
  have cf: "createFailed c ?m = (Errorf (?m @ mountHint), c\<lparr>exitCode := 127\<rparr>)" for c
    using nd npd ncf by (simp add: createFailed_def SetExitCode_def)
  have nd2: "\<not> notADirectory ''boom''" by (simp add: str_eval)
  have npd2: "\<not> permissionDenied ''boom''" by (simp add: str_eval)
  have ncf2: "\<not> cmdNotFound c ''boom''" for c by (simp add: str_eval)
  have cf2: "createFailed c ''boom'' = (Errorf ''boom'', c)" for c
    using nd2 npd2 ncf2 by (simp add: createFailed_def)
  have a: "containerd_Create (failingCreate (Errorf ?m)) ''275dfb25283f'' []
     ''/containers/275dfb25283f/checkpoints'' ''spec'' [''docker-runc''] = Some (Errorf ?m)"
    by (simp add: failingCreate_def)
  have b: "containerStart (failingCreate (Errorf ?m)) sampleContainer [] [] True =
      (Some (Errorf (?m @ mountHint)),
       fst (snd (containerStart (failingCreate (Errorf ?m)) sampleContainer [] [] True)),
       snd (snd (containerStart (failingCreate (Errorf ?m)) sampleContainer [] [] True))) \<and>
      Error (fst (snd (containerStart (failingCreate (Errorf ?m)) sampleContainer [] [] True))) =
        ?m @ mountHint"
    by (simp add: containerStart_def startSteps_def failingCreate_def sampleEnv_def
        sampleContainer_def sampleHostConfig_def SetDefaultNetModeIfBlank_def cf rollback_def
        SetError_def ExitCode_def SetExitCode_def Let_def)
  have c: "fst (containerStart (failingCreate (ErrorWithStatusCode (Errorf ''boom'') 500))
          sampleContainer [] [] True) = Some (Errorf ''boom'')"
    by (simp add: containerStart_def startSteps_def failingCreate_def sampleEnv_def
        sampleContainer_def sampleHostConfig_def SetDefaultNetModeIfBlank_def cf2 rollback_def
        SetError_def ExitCode_def SetExitCode_def Let_def)
  have d: "Errorf (?m @ mountHint) \<noteq> Errorf ?m" by (simp add: mountHint_def)
  show ?thesis using a b c d by (metis error.distinct(3) fst_conv)
qed

section \<open>The classification of a failed Create\<close>

text \<open>
  C2, at an entrypoint path with an upper-case letter. The description of the failed
  \<open>Create\<close> contains the path \<open>/bin/Foo\<close> and the text "no such file or directory",
  yet the first condition does not hold: the description is lower-cased and the path is
  not. \<open>createFailed\<close> leaves the exit code 0 as it is, and \<open>containerStart\<close> returns
  with the exit code 128 of the rollback, not 127.
\<close>

theorem createFailed_upper_case_path:
  "Contains ''exec: /bin/Foo: stat /bin/Foo: no such file or directory'' ''/bin/Foo'' \<and>
   contains ''exec: /bin/Foo: stat /bin/Foo: no such file or directory'' ''no such file or directory'' \<and>
   \<not> cmdNotFound (sampleContainer\<lparr>Path := ''/bin/Foo''\<rparr>)
         ''exec: /bin/Foo: stat /bin/Foo: no such file or directory'' \<and>
   exitCode (snd (createFailed (sampleContainer\<lparr>Path := ''/bin/Foo'', exitCode := 0\<rparr>)
      ''exec: /bin/Foo: stat /bin/Foo: no such file or directory'')) = 0 \<and>
   exitCode (fst (snd (containerStart
      (failingCreate (Errorf ''exec: /bin/Foo: stat /bin/Foo: no such file or directory''))
      (sampleContainer\<lparr>Path := ''/bin/Foo'', exitCode := 0\<rparr>) '''' '''' True))) = 128"
proof -
  let ?m = "''exec: /bin/Foo: stat /bin/Foo: no such file or directory''"
  have a: "Contains ?m ''/bin/Foo''" by simp
  have b: "contains ?m ''no such file or directory''" by (simp add: str_eval)
  have c: "\<not> contains ?m ''/bin/Foo''" by (simp add: str_eval)
  have d: "\<not> permissionDenied ?m" by (simp add: str_eval)
  have e: "\<not> notADirectory ?m" by (simp add: str_eval)
  have f: "\<not> cmdNotFound c' ?m" if "Path c' = ''/bin/Foo''" for c'
    using c that by (simp add: cmdNotFound_def)
  have g: "createFailed c' ?m = (Errorf ?m, c')" if "Path c' = ''/bin/Foo''" for c'
    using f [OF that] d e by (simp add: createFailed_def)
  have h: "exitCode (fst (snd (containerStart (failingCreate (Errorf ?m))
      (sampleContainer\<lparr>Path := ''/bin/Foo'', exitCode := 0\<rparr>) '''' '''' True))) = 128"
    by (simp add: containerStart_def startSteps_def failingCreate_def sampleEnv_def
        sampleContainer_def sampleHostConfig_def SetDefaultNetModeIfBlank_def g rollback_def
        SetError_def ExitCode_def SetExitCode_def Let_def)
  show ?thesis using a b f g h by simp
qed

text \<open>
  With a path in lower case the same failure is classified: the exit code is 127.
\<close>

lemma createFailed_lower_case_path:
  "exitCode (snd (createFailed (sampleContainer\<lparr>Path := ''/bin/foo''\<rparr>)
      ''exec: /bin/foo: stat /bin/foo: no such file or directory'')) = 127"
proof -
  let ?m = "''exec: /bin/foo: stat /bin/foo: no such file or directory''"
  have a: "cmdNotFound (sampleContainer\<lparr>Path := ''/bin/foo''\<rparr>) ?m" by (simp add: str_eval)
  have b: "\<not> permissionDenied ?m" by (simp add: str_eval)
  have c: "\<not> notADirectory ?m" by (simp add: str_eval)
  show ?thesis using a b c by (simp add: createFailed_def SetExitCode_def)
qed

text \<open>
  C3, as amended. The three checks run one after the other and each one that matches
  overwrites the exit code, so the classification in effect on return is that of the
  last check that matches: not-a-directory (127, with the hint appended to the
  description), otherwise permission-denied (126), otherwise entrypoint-not-found (127).
  A description that matches none keeps the exit code it had, and the hint is appended
  exactly when the not-a-directory text matches.
\<close>

theorem createFailed_last_match_wins:
  "createFailed c errDesc =
     (Errorf (if notADirectory errDesc then errDesc @ mountHint else errDesc),
      if notADirectory errDesc then c\<lparr>exitCode := 127\<rparr>
      else if permissionDenied errDesc then c\<lparr>exitCode := 126\<rparr>
      else if cmdNotFound c errDesc then c\<lparr>exitCode := 127\<rparr>
      else c)"
  by (simp add: createFailed_def SetExitCode_def Let_def)

text \<open>
  C3 as stated fails. The description "connection refused" matches none of the three
  checks, so no classification takes effect and the container is left as it was. The
  description of the second example matches the first check and the second: both
  assignments run, and the exit code is the 126 of the later check, not the 127 of the
  earlier one.
\<close>

theorem createFailed_not_exactly_one:
  "\<not> cmdNotFound sampleContainer ''connection refused'' \<and>
   \<not> permissionDenied ''connection refused'' \<and>
   \<not> notADirectory ''connection refused'' \<and>
   createFailed sampleContainer ''connection refused'' =
     (Errorf ''connection refused'', sampleContainer) \<and>
   cmdNotFound sampleContainer ''exec: bash: no such file or directory: permission denied'' \<and>
   permissionDenied ''exec: bash: no such file or directory: permission denied'' \<and>
   exitCode (snd (createFailed sampleContainer
      ''exec: bash: no such file or directory: permission denied'')) = 126"
proof -
  let ?m = "''connection refused''"
  let ?n = "''exec: bash: no such file or directory: permission denied''"
  have a: "\<not> cmdNotFound sampleContainer ?m" by (simp add: str_eval)
  have b: "\<not> permissionDenied ?m" by (simp add: str_eval)
  have c: "\<not> notADirectory ?m" by (simp add: str_eval)
  have d: "createFailed sampleContainer ?m = (Errorf ?m, sampleContainer)"
    using a b c by (simp add: createFailed_def)
  have e: "cmdNotFound sampleContainer ?n" by (simp add: str_eval sampleContainer_def)
  have f: "permissionDenied ?n" by (simp add: str_eval)
  have g: "\<not> notADirectory ?n" by (simp add: str_eval)
  have h: "exitCode (snd (createFailed sampleContainer ?n)) = 126"
    using e f g by (simp add: createFailed_def SetExitCode_def)
  show ?thesis using a b c d e f h by simp
qed

section \<open>The checks of ContainerStart\<close>

text \<open>
  C4, as amended. For a container that is running and not paused, \<open>ContainerStart\<close>
  with a request that passes the checkpoint check (no checkpoint name, or a daemon in
  experimental mode) returns the error "Container already started" with the status
  \<open>304 Not Modified\<close>; with a checkpoint name on a daemon that is not experimental it
  returns the bad-request error of that check instead. In both cases the container is
  as it was and nothing is called: no \<open>Create\<close>, no mount, no network step.
\<close>

theorem ContainerStart_running:
  assumes "GetContainer d name = Inr c" and "IsRunning c" and "\<not> IsPaused c"
  shows "ContainerStart d name hostConfig checkpoint checkpointDir =
           (if checkpoint \<noteq> '''' \<and> \<not> HasExperimental d then
              (Some (BadRequestError (Errorf ''checkpoint is only supported in experimental mode'')),
               None, [])
            else
              (Some (ErrorWithStatusCode (Errorf ''Container already started'') StatusNotModified),
               Some c, []))"
  using assms by (simp add: ContainerStart_def)

theorem ContainerStart_running_witness:
  "GetContainer (resolving ''c1'' (sampleContainer\<lparr>Running := True\<rparr>)) ''c1'' =
     Inr (sampleContainer\<lparr>Running := True\<rparr>) \<and>
   IsRunning (sampleContainer\<lparr>Running := True\<rparr>) \<and>
   \<not> IsPaused (sampleContainer\<lparr>Running := True\<rparr>) \<and>
   ContainerStart (resolving ''c1'' (sampleContainer\<lparr>Running := True\<rparr>)) ''c1'' None '''' '''' =
     (Some (ErrorWithStatusCode (Errorf ''Container already started'') 304),
      Some (sampleContainer\<lparr>Running := True\<rparr>), [])"
proof -
  have a: "GetContainer (resolving ''c1'' (sampleContainer\<lparr>Running := True\<rparr>)) ''c1'' =
     Inr (sampleContainer\<lparr>Running := True\<rparr>)"
    by (simp add: resolving_def)
  have b: "IsRunning (sampleContainer\<lparr>Running := True\<rparr>)"
    by (simp add: IsRunning_def)
  have c: "\<not> IsPaused (sampleContainer\<lparr>Running := True\<rparr>)"
    by (simp add: IsPaused_def sampleContainer_def)
  from ContainerStart_running [OF a b c, of None "''''" "''''"] a b c show ?thesis
    by (simp add: StatusNotModified_def)
qed

text \<open>
  C4 as stated fails: for a running container that is not paused, a request with a
  checkpoint name on a daemon that is not experimental is answered with the
  bad-request error, not with the not-modified result.
\<close>

theorem ContainerStart_running_checkpoint_gate:
  "GetContainer (resolving ''c1'' (sampleContainer\<lparr>Running := True\<rparr>)) ''c1'' =
     Inr (sampleContainer\<lparr>Running := True\<rparr>) \<and>
   IsRunning (sampleContainer\<lparr>Running := True\<rparr>) \<and>
   \<not> IsPaused (sampleContainer\<lparr>Running := True\<rparr>) \<and>
   \<not> HasExperimental (resolving ''c1'' (sampleContainer\<lparr>Running := True\<rparr>)) \<and>
   ContainerStart (resolving ''c1'' (sampleContainer\<lparr>Running := True\<rparr>)) ''c1'' None ''cp1'' '''' =
     (Some (BadRequestError (Errorf ''checkpoint is only supported in experimental mode'')), None, [])"
  by (simp add: resolving_def sampleEnv_def IsPaused_def IsRunning_def ContainerStart_def
      sampleContainer_def)

text \<open>
  C6. For a container that is running, \<open>containerStart\<close> with
  \<open>resetRestartManager = true\<close> returns no error and leaves the container as it is;
  it takes and releases the container's lock and calls nothing else: no mount, no
  network initialisation, no spec build, no \<open>Create\<close>.
\<close>

theorem containerStart_already_running:
  "Running c \<Longrightarrow>
   containerStart d c checkpoint checkpointDir True = (None, c, [EvLock, EvUnlock])"
  by (simp add: containerStart_def)

theorem containerStart_already_running_witness:
  "Running (sampleContainer\<lparr>Running := True\<rparr>) \<and>
   containerStart sampleEnv (sampleContainer\<lparr>Running := True\<rparr>) '''' '''' True =
     (None, sampleContainer\<lparr>Running := True\<rparr>, [EvLock, EvUnlock])"
  using containerStart_already_running [of "sampleContainer\<lparr>Running := True\<rparr>" sampleEnv "''''" "''''"]
  by simp

text \<open>
  C7, as amended. For a paused container, \<open>ContainerStart\<close> with a request that
  passes the checkpoint check fails with the error "Cannot start a paused container,
  try unpause instead."; with a checkpoint name on a daemon that is not experimental it
  fails with the bad-request error of that check instead. In both cases nothing is
  called, so \<open>Create\<close> is never invoked.
\<close>

theorem ContainerStart_paused:
  assumes "GetContainer d name = Inr c" and "IsPaused c"
  shows "ContainerStart d name hostConfig checkpoint checkpointDir =
           (if checkpoint \<noteq> '''' \<and> \<not> HasExperimental d then
              (Some (BadRequestError (Errorf ''checkpoint is only supported in experimental mode'')),
               None, [])
            else
              (Some (Errorf ''Cannot start a paused container, try unpause instead.''), Some c, []))"
  using assms by (simp add: ContainerStart_def)

theorem ContainerStart_paused_witness:
  "GetContainer (resolving ''c1'' (sampleContainer\<lparr>Paused := True\<rparr>)) ''c1'' =
     Inr (sampleContainer\<lparr>Paused := True\<rparr>) \<and>
   IsPaused (sampleContainer\<lparr>Paused := True\<rparr>) \<and>
   ContainerStart (resolving ''c1'' (sampleContainer\<lparr>Paused := True\<rparr>)) ''c1'' None '''' '''' =
     (Some (Errorf ''Cannot start a paused container, try unpause instead.''),
      Some (sampleContainer\<lparr>Paused := True\<rparr>), [])"
proof -
  have a: "GetContainer (resolving ''c1'' (sampleContainer\<lparr>Paused := True\<rparr>)) ''c1'' =
     Inr (sampleContainer\<lparr>Paused := True\<rparr>)"
    by (simp add: resolving_def)
  have b: "IsPaused (sampleContainer\<lparr>Paused := True\<rparr>)"
    by (simp add: IsPaused_def)
  from ContainerStart_paused [OF a b, of None "''''" "''''"] a b show ?thesis by simp
qed

text \<open>
  C7 as stated fails: for a paused container, a request with a checkpoint name on a
  daemon that is not experimental fails with the bad-request error, which is not the
  error of the paused check.
\<close>

theorem ContainerStart_paused_checkpoint_gate:
  "GetContainer (resolving ''c1'' (sampleContainer\<lparr>Paused := True\<rparr>)) ''c1'' =
     Inr (sampleContainer\<lparr>Paused := True\<rparr>) \<and>
   IsPaused (sampleContainer\<lparr>Paused := True\<rparr>) \<and>
   \<not> HasExperimental (resolving ''c1'' (sampleContainer\<lparr>Paused := True\<rparr>)) \<and>
   ContainerStart (resolving ''c1'' (sampleContainer\<lparr>Paused := True\<rparr>)) ''c1'' None ''cp1'' '''' =
     (Some (BadRequestError (Errorf ''checkpoint is only supported in experimental mode'')), None, []) \<and>
   BadRequestError (Errorf ''checkpoint is only supported in experimental mode'') \<noteq>
     Errorf ''Cannot start a paused container, try unpause instead.''"
  by (simp add: resolving_def sampleEnv_def IsPaused_def ContainerStart_def)

text \<open>
  C10, as amended. The paused check comes before the running check: for a container
  that is both paused and running, \<open>ContainerStart\<close> never returns the not-modified
  result; it returns the error of the paused check when the request passes the
  checkpoint check, and the bad-request error of the checkpoint check otherwise.
\<close>

theorem ContainerStart_paused_before_running:
  assumes "GetContainer d name = Inr c" and "IsPaused c" and "IsRunning c"
  shows "fst (ContainerStart d name hostConfig checkpoint checkpointDir) \<noteq>
           Some (ErrorWithStatusCode (Errorf ''Container already started'') StatusNotModified) \<and>
         fst (ContainerStart d name hostConfig checkpoint checkpointDir) =
           (if checkpoint \<noteq> '''' \<and> \<not> HasExperimental d then
              Some (BadRequestError (Errorf ''checkpoint is only supported in experimental mode''))
            else Some (Errorf ''Cannot start a paused container, try unpause instead.''))"
  using assms by (simp add: ContainerStart_def)

theorem ContainerStart_paused_before_running_witness:
  "GetContainer (resolving ''c1'' (sampleContainer\<lparr>Running := True, Paused := True\<rparr>)) ''c1'' =
     Inr (sampleContainer\<lparr>Running := True, Paused := True\<rparr>) \<and>
   IsPaused (sampleContainer\<lparr>Running := True, Paused := True\<rparr>) \<and>
   IsRunning (sampleContainer\<lparr>Running := True, Paused := True\<rparr>) \<and>
   fst (ContainerStart (resolving ''c1'' (sampleContainer\<lparr>Running := True, Paused := True\<rparr>))
          ''c1'' None '''' '''') =
     Some (Errorf ''Cannot start a paused container, try unpause instead.'')"
proof -
  let ?c = "sampleContainer\<lparr>Running := True, Paused := True\<rparr>"
  have a: "GetContainer (resolving ''c1'' ?c) ''c1'' = Inr ?c"
    by (simp add: resolving_def)
  have b: "IsPaused ?c" by (simp add: IsPaused_def)
  have c: "IsRunning ?c" by (simp add: IsRunning_def)
  from ContainerStart_paused_before_running [OF a b c, of None "''''" "''''"] a b c
  show ?thesis by simp
qed

text \<open>
  C10 as stated fails: for a container that is both paused and running, a request with
  a checkpoint name on a daemon that is not experimental does not return the error of
  the paused check.
\<close>

theorem ContainerStart_paused_running_checkpoint_gate:
  "GetContainer (resolving ''c1'' (sampleContainer\<lparr>Running := True, Paused := True\<rparr>)) ''c1'' =
     Inr (sampleContainer\<lparr>Running := True, Paused := True\<rparr>) \<and>
   IsPaused (sampleContainer\<lparr>Running := True, Paused := True\<rparr>) \<and>
   IsRunning (sampleContainer\<lparr>Running := True, Paused := True\<rparr>) \<and>
   fst (ContainerStart (resolving ''c1'' (sampleContainer\<lparr>Running := True, Paused := True\<rparr>))
          ''c1'' None ''cp1'' '''') \<noteq>
     Some (Errorf ''Cannot start a paused container, try unpause instead.'')"
  by (simp add: resolving_def sampleEnv_def IsPaused_def IsRunning_def ContainerStart_def)

section \<open>Verification and adaptation of the host configuration\<close>

lemma Cleanup_no_settings: "filter isSettingsCheck (Cleanup d c) = []"
  by (auto simp: Cleanup_def isSettingsCheck_def split: option.splits sum.splits)

lemma rollback_no_settings: "filter isSettingsCheck (snd (rollback d err c)) = []"
  by (auto simp: rollback_def Let_def Cleanup_no_settings isSettingsCheck_def split: option.splits)

lemma startSteps_no_settings: "filter isSettingsCheck (snd (snd (startSteps d c cp dir r))) = []"
  by (auto simp: startSteps_def Let_def isSettingsCheck_def split: option.splits sum.splits prod.splits)

lemma containerStart_no_settings:
  "filter isSettingsCheck (snd (snd (containerStart d c cp dir r))) = []"
proof -
  obtain e c' evs where s: "startSteps d c cp dir r = (e, c', evs)"
    by (metis prod_cases3)
  have evs: "filter isSettingsCheck evs = []"
    using startSteps_no_settings [of d c cp dir r] s by simp
  show ?thesis
  proof (cases e)
    case None
    then show ?thesis using s evs by (simp add: containerStart_def isSettingsCheck_def)
  next
    case (Some err)
    obtain c'' evs' where r: "rollback d err c' = (c'', evs')" by (metis surj_pair)
    have "filter isSettingsCheck evs' = []" using rollback_no_settings [of d err c'] r by simp
    then show ?thesis using s evs Some r by (simp add: containerStart_def isSettingsCheck_def)
  qed
qed

lemma legacyHostConfig_no_settings:
  "filter isSettingsCheck (snd (snd (legacyHostConfig d c hostConfig))) = []"
  by (auto simp: legacyHostConfig_def Let_def isSettingsCheck_def split: option.splits sum.splits)

lemma verifyAndAdapt_events:
  "snd (snd (verifyAndAdapt d c hostConfig)) =
     EvVerifyContainerSettings (HostConfig c) #
     (if hostConfig \<noteq> None \<and> verifyContainerSettings d (HostConfig c) = None
      then [EvAdaptContainerSettings (HostConfig c)] else [])"
  by (auto simp: verifyAndAdapt_def split: option.splits sum.splits)

text \<open>
  C8, as amended. In every call that reaches line 76 (the request passes the checkpoint
  check, the name resolves to a container that is neither paused nor running, and the
  block of the deprecated host configuration returns no error), \<open>ContainerStart\<close>
  verifies the host configuration of the container once, whether or not a host
  configuration was supplied; it adapts the settings only when a host configuration was
  supplied (and the verification passed), and never otherwise.
\<close>

theorem ContainerStart_verifies_adapts_under_guard:
  assumes "checkpoint = [] \<or> HasExperimental d"
      and "GetContainer d name = Inr c" and "\<not> IsPaused c" and "\<not> IsRunning c"
      and "legacyHostConfig d c hostConfig = (None, c1, evs)"
  shows "filter isSettingsCheck
           (snd (snd (ContainerStart d name hostConfig checkpoint checkpointDir))) =
           EvVerifyContainerSettings (HostConfig c1) #
           (if hostConfig \<noteq> None \<and> verifyContainerSettings d (HostConfig c1) = None
            then [EvAdaptContainerSettings (HostConfig c1)] else [])"
proof -
  obtain e c2 evs' where v: "verifyAndAdapt d c1 hostConfig = (e, c2, evs')"
    by (metis prod_cases3)
  have evs': "evs' = EvVerifyContainerSettings (HostConfig c1) #
     (if hostConfig \<noteq> None \<and> verifyContainerSettings d (HostConfig c1) = None
      then [EvAdaptContainerSettings (HostConfig c1)] else [])"
    using verifyAndAdapt_events [of d c1 hostConfig] v by simp
  have fevs': "filter isSettingsCheck evs' = evs'"
    by (simp add: evs' isSettingsCheck_def)
  have fevs: "filter isSettingsCheck evs = []"
    using legacyHostConfig_no_settings [of d c hostConfig] assms(5) by simp
  have CS: "ContainerStart d name hostConfig checkpoint checkpointDir =
      (case verifyAndAdapt d c1 hostConfig of
         (Some err, c2, evs') \<Rightarrow> (Some err, Some c2, evs @ evs')
       | (None, c2, evs') \<Rightarrow>
           (case containerStart d c2 checkpoint checkpointDir True of
              (err, c3, evs'') \<Rightarrow> (err, Some c3, evs @ evs' @ evs'')))"
    using assms by (auto simp: ContainerStart_def)
  have "filter isSettingsCheck
      (snd (snd (ContainerStart d name hostConfig checkpoint checkpointDir))) = evs'"
  proof (cases e)
    case (Some err)
    have "snd (snd (ContainerStart d name hostConfig checkpoint checkpointDir)) = evs @ evs'"
      by (simp add: CS v Some)
    then show ?thesis by (simp add: fevs fevs')
  next
    case None
    obtain e3 c3 evs3 where cs: "containerStart d c2 checkpoint checkpointDir True = (e3, c3, evs3)"
      by (metis prod_cases3)
    have f3: "filter isSettingsCheck evs3 = []"
      using containerStart_no_settings [of d c2 checkpoint checkpointDir True] cs by simp
    have "snd (snd (ContainerStart d name hostConfig checkpoint checkpointDir)) = evs @ evs' @ evs3"
      by (simp add: CS v None cs)
    then show ?thesis by (simp add: fevs fevs' f3)
  qed
  then show ?thesis by (simp only: evs')
qed

theorem ContainerStart_verifies_adapts_under_guard_witness:
  "([] = [] \<or> HasExperimental sampleEnv) \<and>
   GetContainer sampleEnv ''275dfb25283f'' = Inr sampleContainer \<and>
   \<not> IsPaused sampleContainer \<and> \<not> IsRunning sampleContainer \<and>
   legacyHostConfig sampleEnv sampleContainer None = (None, sampleContainer, []) \<and>
   filter isSettingsCheck (snd (snd (ContainerStart sampleEnv ''275dfb25283f'' None [] []))) =
     [EvVerifyContainerSettings sampleHostConfig]"
proof -
  have a: "([]::string) = [] \<or> HasExperimental sampleEnv" by simp
  have b: "GetContainer sampleEnv ''275dfb25283f'' = Inr sampleContainer"
    by (simp add: sampleEnv_def)
  have c: "\<not> IsPaused sampleContainer" by (simp add: IsPaused_def sampleContainer_def)
  have d: "\<not> IsRunning sampleContainer" by (simp add: IsRunning_def sampleContainer_def)
  have e: "legacyHostConfig sampleEnv sampleContainer None = (None, sampleContainer, [])"
    by (simp add: legacyHostConfig_def sampleEnv_def)
  have f: "HostConfig sampleContainer = sampleHostConfig" by (simp add: sampleContainer_def)
  from ContainerStart_verifies_adapts_under_guard [OF a b c d e, of "[]"] b c d e f
  show ?thesis by simp
qed

text \<open>
  C8 as stated fails: a start request without a host configuration, for a stopped
  container, runs to the end without any adaptation of the settings. The verification
  is the first call made.
\<close>

theorem ContainerStart_no_override_no_adapt:
  "ContainerStart sampleEnv ''275dfb25283f'' None [] [] =
     (None, Some (sampleContainer\<lparr>BaseFS := ''/overlay2/merged''\<rparr>),
      [EvVerifyContainerSettings sampleHostConfig, EvLock, EvConditionalMountOnStart,
       EvInitializeNetworking, EvCreateSpec, EvGetLibcontainerdCreateOptions,
       EvResetRestartManager True,
       EvCreate ''275dfb25283f'' [] ''/containers/275dfb25283f/checkpoints'' ''spec'' [''docker-runc''],
       EvUpdateSince ''start'', EvUnlock]) \<and>
   EvAdaptContainerSettings sampleHostConfig \<notin>
     set (snd (snd (ContainerStart sampleEnv ''275dfb25283f'' None [] [])))"
proof -
  have "ContainerStart sampleEnv ''275dfb25283f'' None [] [] =
     (None, Some (sampleContainer\<lparr>BaseFS := ''/overlay2/merged''\<rparr>),
      [EvVerifyContainerSettings sampleHostConfig, EvLock, EvConditionalMountOnStart,
       EvInitializeNetworking, EvCreateSpec, EvGetLibcontainerdCreateOptions,
       EvResetRestartManager True,
       EvCreate ''275dfb25283f'' [] ''/containers/275dfb25283f/checkpoints'' ''spec'' [''docker-runc''],
       EvUpdateSince ''start'', EvUnlock])"
    by (simp add: ContainerStart_def sampleEnv_def sampleContainer_def sampleHostConfig_def
        IsPaused_def IsRunning_def legacyHostConfig_def verifyAndAdapt_def containerStart_def
        startSteps_def SetDefaultNetModeIfBlank_def)
  then show ?thesis by simp
qed

section \<open>Exit notifiers\<close>

lemma en_close_eq:
  assumes "notifiers s en = Some n" and "en_once n = chanClosed s (en_c n)"
  shows "en_close s en =
           Inr (if en_once n then s
                else s\<lparr>notifiers := (notifiers s)(en \<mapsto> n\<lparr>en_once := True\<rparr>),
                       chanClosed := (chanClosed s)(en_c n := True),
                       exitNotifiers :=
                         (if exitNotifiers s (en_id n) = Some en
                          then (exitNotifiers s)(en_id n := None) else exitNotifiers s)\<rparr>)"
  using assms by (simp add: en_close_def close_chan_def)

text \<open>\<open>close\<close> keeps the state of the notifiers well formed.\<close>

lemma en_close_wellFormed:
  assumes "wellFormed s" and "en_close s en = Inr s'"
  shows "wellFormed s'"
proof -
  from assms(2) obtain n where n: "notifiers s en = Some n"
    by (auto simp: en_close_def split: option.splits)
  have inv: "en_once n = chanClosed s (en_c n)"
    using assms(1) n by (auto simp: wellFormed_def)
  have s': "s' = (if en_once n then s
                else s\<lparr>notifiers := (notifiers s)(en \<mapsto> n\<lparr>en_once := True\<rparr>),
                       chanClosed := (chanClosed s)(en_c n := True),
                       exitNotifiers :=
                         (if exitNotifiers s (en_id n) = Some en
                          then (exitNotifiers s)(en_id n := None) else exitNotifiers s)\<rparr>)"
    using en_close_eq [OF n inv] assms(2) by simp
  show ?thesis
  proof (cases "en_once n")
    case True
    then show ?thesis using assms(1) s' by simp
  next
    case False
    have distinct: "\<And>b m. notifiers s b = Some m \<Longrightarrow> b \<noteq> en \<Longrightarrow> en_c m \<noteq> en_c n"
      using assms(1) n unfolding wellFormed_def by blast
    have once: "\<And>a m. notifiers s a = Some m \<Longrightarrow> en_once m = chanClosed s (en_c m)"
      using assms(1) unfolding wellFormed_def by blast
    have chans: "\<And>a b k m. notifiers s a = Some k \<Longrightarrow> notifiers s b = Some m \<Longrightarrow> a \<noteq> b \<Longrightarrow>
        en_c k \<noteq> en_c m"
      using assms(1) unfolding wellFormed_def by blast
    show ?thesis
      unfolding wellFormed_def s'
      using False n distinct once chans
      by (auto split: if_splits)
  qed
qed

lemma sampleClient_wellFormed: "wellFormed sampleClient"
  by (auto simp: wellFormed_def sampleClient_def split: if_splits)

text \<open>
  C9. For a notifier in the store whose channel is closed exactly when its
  \<open>sync.Once\<close> has run (as it is from its creation on), \<open>close\<close> succeeds, and any
  number of calls, one or more, leaves the state that the first call leaves: the
  channel is closed once and never closed again. \<open>wait\<close> answers the same channel
  before and after, and that channel is closed afterwards, so every waiter sees the
  closure; no other channel changes. The registry loses the key of the notifier only
  when this call runs the \<open>sync.Once\<close> and the notifier registered under the key is
  this very one; an entry that points to another notifier is kept, also under the
  same key.
\<close>

theorem exitNotifier_close_once:
  assumes "notifiers s en = Some n" and "en_once n = chanClosed s (en_c n)"
  shows "\<exists>s1. en_close s en = Inr s1 \<and>
           closeTimes (Suc k) s en = Inr s1 \<and>
           en_wait s en = Inr (en_c n) \<and> en_wait s1 en = Inr (en_c n) \<and>
           chanClosed s1 (en_c n) \<and>
           (\<forall>ch. ch \<noteq> en_c n \<longrightarrow> chanClosed s1 ch = chanClosed s ch) \<and>
           exitNotifiers s1 =
             (if \<not> en_once n \<and> exitNotifiers s (en_id n) = Some en
              then (exitNotifiers s)(en_id n := None) else exitNotifiers s) \<and>
           (\<forall>key en'. exitNotifiers s key = Some en' \<and> en' \<noteq> en \<longrightarrow>
              exitNotifiers s1 key = Some en')"
proof -
  define s1 where "s1 =
     (if en_once n then s
      else s\<lparr>notifiers := (notifiers s)(en \<mapsto> n\<lparr>en_once := True\<rparr>),
             chanClosed := (chanClosed s)(en_c n := True),
             exitNotifiers :=
               (if exitNotifiers s (en_id n) = Some en
                then (exitNotifiers s)(en_id n := None) else exitNotifiers s)\<rparr>)"
  have c1: "en_close s en = Inr s1"
    unfolding s1_def by (rule en_close_eq [OF assms])
  have once: "\<exists>n1. notifiers s1 en = Some n1 \<and> en_once n1 \<and> en_c n1 = en_c n"
    using assms by (simp add: s1_def)
  then have again: "en_close s1 en = Inr s1"
    by (auto simp: en_close_def)
  have rep: "closeTimes j s1 en = Inr s1" for j
    by (induction j) (simp_all add: again)
  have ct: "closeTimes (Suc k) s en = Inr s1"
    by (simp add: c1 rep)
  have w: "en_wait s en = Inr (en_c n)" "en_wait s1 en = Inr (en_c n)"
    using assms once by (auto simp: en_wait_def)
  have cl: "chanClosed s1 (en_c n)"
    using assms by (simp add: s1_def)
  have oth: "\<forall>ch. ch \<noteq> en_c n \<longrightarrow> chanClosed s1 ch = chanClosed s ch"
    by (simp add: s1_def)
  have reg: "exitNotifiers s1 =
             (if \<not> en_once n \<and> exitNotifiers s (en_id n) = Some en
              then (exitNotifiers s)(en_id n := None) else exitNotifiers s)"
    by (simp add: s1_def)
  have keep: "\<forall>key en'. exitNotifiers s key = Some en' \<and> en' \<noteq> en \<longrightarrow>
              exitNotifiers s1 key = Some en'"
    unfolding reg by auto
  show ?thesis using c1 ct w cl oth reg keep by blast
qed

theorem exitNotifier_close_once_witness:
  "notifiers sampleClient 0 = Some \<lparr>en_id = ''c1'', en_c = 10, en_once = False\<rparr> \<and>
   en_once \<lparr>en_id = ''c1'', en_c = 10, en_once = False\<rparr> =
     chanClosed sampleClient (en_c \<lparr>en_id = ''c1'', en_c = 10, en_once = False\<rparr>) \<and>
   (\<exists>s1. en_close sampleClient 0 = Inr s1 \<and> closeTimes 3 sampleClient 0 = Inr s1 \<and>
      chanClosed s1 10 \<and> exitNotifiers s1 ''c1'' = Some 1)"
proof -
  let ?n = "\<lparr>en_id = ''c1'', en_c = 10, en_once = False\<rparr>"
  have a: "notifiers sampleClient 0 = Some ?n" by (simp add: sampleClient_def)
  have b: "en_once ?n = chanClosed sampleClient (en_c ?n)" by (simp add: sampleClient_def)
  have r: "exitNotifiers sampleClient ''c1'' = Some 1" by (simp add: sampleClient_def)
  from exitNotifier_close_once [OF a b, of 2] obtain s1 where
    "en_close sampleClient 0 = Inr s1" "closeTimes (Suc 2) sampleClient 0 = Inr s1"
    "chanClosed s1 (en_c ?n)"
    "\<forall>key en'. exitNotifiers sampleClient key = Some en' \<and> en' \<noteq> 0 \<longrightarrow>
              exitNotifiers s1 key = Some en'"
    by blast
  then show ?thesis using a b r by (auto simp: numeral_3_eq_3)
qed

section \<open>The bundle directory\<close>

subsection \<open>Splitting a clean path\<close>

lemma Split_no_sep: "sep \<notin> set d \<Longrightarrow> Split d sep = [d]"
  by (induction d) auto

lemma Split_append_sep: "sep \<notin> set d \<Longrightarrow> Split (d @ sep # r) sep = d # Split r sep"
  by (induction d) auto

lemma Split_pathOf_aux:
  "\<forall>d\<in>set (d0 # segs). CHR ''/'' \<notin> set d \<Longrightarrow>
   Split (d0 @ pathOf segs) CHR ''/'' = d0 # segs"
proof (induction segs arbitrary: d0)
  case Nil
  then show ?case by (simp add: pathOf_def Split_no_sep)
next
  case (Cons e es)
  have "Split (d0 @ pathOf (e # es)) CHR ''/'' = Split (d0 @ CHR ''/'' # (e @ pathOf es)) CHR ''/''"
    by (simp add: pathOf_def)
  also have "\<dots> = d0 # Split (e @ pathOf es) CHR ''/''"
    using Cons.prems by (simp add: Split_append_sep)
  also have "Split (e @ pathOf es) CHR ''/'' = e # es"
    using Cons.prems by (intro Cons.IH) simp
  finally show ?case .
qed

lemma Split_pathOf: "cleanSegments segs \<Longrightarrow> tl (Split (pathOf segs) CHR ''/'') = segs"
  using Split_pathOf_aux [of "[]" segs] by (simp add: cleanSegments_def)

subsection \<open>One segment\<close>

lemma idSuffix_Cons: "idSuffix uid gid = CHR ''.'' # Itoa uid @ ''.'' @ Itoa gid"
  by (simp add: idSuffix_def)

lemma Join_nonempty:
  "d \<noteq> [] \<Longrightarrow> Join p d = (if p = ''/'' then [] else p) @ CHR ''/'' # d"
  by (simp add: Join_def)

lemma Join_prefix: "prefix p (Join p d)"
  by (simp add: Join_def)

lemma Join_length: "d \<noteq> [] \<Longrightarrow> length p < length (Join p d)"
  by (simp add: Join_def)

lemma Join_not_root: "d \<noteq> [] \<Longrightarrow> Join p d \<noteq> [CHR ''/'']"
proof
  assume d: "d \<noteq> []" and "Join p d = [CHR ''/'']"
  then have "length (Join p d) = 1" by simp
  moreover have "2 \<le> length (Join p d)"
    using d by (cases p; cases d) (auto simp: Join_def)
  ultimately show False by simp
qed

lemma Stat_faultless:
  "faultless s \<Longrightarrow> Stat s p = (case files s p of None \<Rightarrow> Inl ENOENT | Some fi \<Rightarrow> Inr fi)"
  by (simp add: Stat_def faultless_def)

lemma makeSibling_faultless:
  "faultless s \<Longrightarrow>
   makeSibling uid gid p s =
     (Inr (p @ idSuffix uid gid),
      if files s (p @ idSuffix uid gid) = None
      then s\<lparr>files := (files s)(p @ idSuffix uid gid \<mapsto> \<lparr>Mode = 448, Uid = uid, Gid = gid\<rparr>)\<rparr>
      else s)"
  by (auto simp: makeSibling_def MkdirAs_def Sprintf_sdd_def faultless_def IsExist_def Let_def
      split: option.splits)

lemma bundleSegment_faultless:
  "faultless s \<Longrightarrow>
   bundleSegment uid gid p d s =
     (if traversable (files s) (Join p d) then (Inr (Join p d), s)
      else (Inr (Join p d @ idSuffix uid gid),
            if files s (Join p d @ idSuffix uid gid) = None
            then s\<lparr>files := (files s)(Join p d @ idSuffix uid gid \<mapsto>
                     \<lparr>Mode = 448, Uid = uid, Gid = gid\<rparr>)\<rparr>
            else s))"
  by (auto simp: bundleSegment_def Stat_faultless makeSibling_faultless traversable_def
      IsNotExist_def Let_def split: option.splits)

lemma makeSibling_files:
  "\<exists>r s'. makeSibling uid gid p s = (r, s') \<and>
      (\<forall>q. q \<noteq> p @ idSuffix uid gid \<longrightarrow> files s' q = files s q) \<and>
      (r = Inr (p @ idSuffix uid gid) \<or> (\<exists>e. r = Inl e))"
  by (auto simp: makeSibling_def MkdirAs_def Sprintf_sdd_def Let_def split: option.splits)

lemma bundleSegment_files:
  "\<exists>r s'. bundleSegment uid gid p d s = (r, s') \<and>
      (\<forall>q. q \<noteq> Join p d @ idSuffix uid gid \<longrightarrow> files s' q = files s q) \<and>
      (r = Inr (Join p d) \<and> s' = s \<or> r = Inr (Join p d @ idSuffix uid gid) \<or> (\<exists>e. r = Inl e))"
  using makeSibling_files [of uid gid "Join p d" s]
  by (auto simp: bundleSegment_def Let_def split: sum.splits)

subsection \<open>The walk\<close>

lemma bundleWalk_siblingPath:
  assumes "faultless s" and "\<forall>d\<in>set ds. d \<noteq> []"
      and "\<forall>q. length p < length q \<longrightarrow> files s q = fs0 q"
  shows "fst (bundleWalk uid gid ds p s) = Inr (siblingPath fs0 uid gid ds p)"
  using assms
proof (induction ds arbitrary: p s)
  case Nil
  then show ?case by simp
next
  case (Cons d ds)
  let ?p1 = "Join p d"
  have len: "length p < length ?p1" using Cons.prems(2) by (simp add: Join_length)
  have tr: "traversable (files s) ?p1 = traversable fs0 ?p1"
    using Cons.prems(3) len by (simp add: traversable_def)
  show ?case
  proof (cases "traversable fs0 ?p1")
    case True
    have "fst (bundleWalk uid gid ds ?p1 s) = Inr (siblingPath fs0 uid gid ds ?p1)"
      using Cons.prems len by (intro Cons.IH) auto
    then show ?thesis
      using True tr Cons.prems(1) by (simp add: bundleSegment_faultless)
  next
    case False
    let ?p2 = "?p1 @ idSuffix uid gid"
    let ?s' = "if files s ?p2 = None
      then s\<lparr>files := (files s)(?p2 \<mapsto> \<lparr>Mode = 448, Uid = uid, Gid = gid\<rparr>)\<rparr> else s"
    have f: "faultless ?s'" using Cons.prems(1) by (simp add: faultless_def)
    have "fst (bundleWalk uid gid ds ?p2 ?s') = Inr (siblingPath fs0 uid gid ds ?p2)"
    proof (intro Cons.IH f)
      show "\<forall>d\<in>set ds. d \<noteq> []" using Cons.prems(2) by simp
      show "\<forall>q. length ?p2 < length q \<longrightarrow> files ?s' q = fs0 q"
        using Cons.prems(3) len by auto
    qed
    then show ?thesis
      using False tr Cons.prems(1) by (simp add: bundleSegment_faultless)
  qed
qed

lemma bundleWalk_off_track:
  "\<not> prefix p R \<Longrightarrow> files (snd (bundleWalk uid gid ds p s)) R = files s R"
proof (induction ds arbitrary: p s)
  case Nil
  then show ?case by simp
next
  case (Cons d ds)
  obtain r s' where seg: "bundleSegment uid gid p d s = (r, s')"
    and same: "\<forall>q. q \<noteq> Join p d @ idSuffix uid gid \<longrightarrow> files s' q = files s q"
    and res: "r = Inr (Join p d) \<and> s' = s \<or> r = Inr (Join p d @ idSuffix uid gid) \<or> (\<exists>e. r = Inl e)"
    using bundleSegment_files [of uid gid p d s] by blast
  have np1: "\<not> prefix (Join p d) R"
    using Cons.prems Join_prefix [of p d] prefix_order.trans by blast
  have np2: "\<not> prefix (Join p d @ idSuffix uid gid) R"
    using np1 by (meson append_prefixD)
  have R: "files s' R = files s R"
    using same np2 by auto
  from res show ?case
  proof (elim disjE conjE exE)
    assume "r = Inr (Join p d)" "s' = s"
    then show ?thesis using seg Cons.IH [OF np1] by simp
  next
    assume "r = Inr (Join p d @ idSuffix uid gid)"
    then show ?thesis using seg Cons.IH [OF np2] R by simp
  next
    fix e assume "r = Inl e"
    then show ?thesis using seg R by simp
  qed
qed

lemma idSuffix_not_prefix_pathOf: "\<not> prefix (idSuffix uid gid) (pathOf ds)"
  by (cases ds) (simp_all add: pathOf_def idSuffix_Cons)

lemma bundleWalk_on_track:
  assumes "\<forall>d\<in>set ds. d \<noteq> []" and "R = (if p = ''/'' then [] else p) @ pathOf ds"
  shows "files (snd (bundleWalk uid gid ds p s)) R = files s R"
  using assms
proof (induction ds arbitrary: p s)
  case Nil
  then show ?case by simp
next
  case (Cons d ds)
  let ?p1 = "Join p d"
  have d: "d \<noteq> []" using Cons.prems(1) by simp
  have p1: "?p1 = (if p = ''/'' then [] else p) @ CHR ''/'' # d"
    using d by (rule Join_nonempty)
  have p1_ne: "?p1 \<noteq> ''/''" using d by (simp add: Join_not_root)
  have R1: "R = ?p1 @ pathOf ds"
    using Cons.prems(2) by (simp add: p1 pathOf_def)
  then have R1': "R = (if ?p1 = ''/'' then [] else ?p1) @ pathOf ds"
    using p1_ne by simp
  obtain r s' where seg: "bundleSegment uid gid p d s = (r, s')"
    and same: "\<forall>q. q \<noteq> ?p1 @ idSuffix uid gid \<longrightarrow> files s' q = files s q"
    and res: "r = Inr ?p1 \<and> s' = s \<or> r = Inr (?p1 @ idSuffix uid gid) \<or> (\<exists>e. r = Inl e)"
    using bundleSegment_files [of uid gid p d s] by blast
  have np2: "\<not> prefix (?p1 @ idSuffix uid gid) R"
    unfolding R1 using idSuffix_not_prefix_pathOf [of uid gid ds] by simp
  then have "?p1 @ idSuffix uid gid \<noteq> R" by auto
  then have R: "files s' R = files s R"
    using same by auto
  from res show ?case
  proof (elim disjE conjE exE)
    assume "r = Inr ?p1" "s' = s"
    moreover have "files (snd (bundleWalk uid gid ds ?p1 s)) R = files s R"
      using Cons.prems(1) R1' by (intro Cons.IH) auto
    ultimately show ?thesis using seg by simp
  next
    assume "r = Inr (?p1 @ idSuffix uid gid)"
    then show ?thesis using seg bundleWalk_off_track [OF np2] R by simp
  next
    fix e assume "r = Inl e"
    then show ?thesis using seg R by simp
  qed
qed

subsection \<open>A root with one affected segment\<close>

lemma foldl_Join_pathOf:
  "\<forall>d\<in>set ds. d \<noteq> [] \<Longrightarrow> ds \<noteq> [] \<Longrightarrow>
   foldl Join p ds = (if p = ''/'' then [] else p) @ pathOf ds"
proof (induction ds arbitrary: p)
  case Nil
  then show ?case by simp
next
  case (Cons d ds)
  have d: "d \<noteq> []" using Cons.prems(1) by simp
  have p1: "Join p d = (if p = ''/'' then [] else p) @ CHR ''/'' # d"
    using d by (rule Join_nonempty)
  have p1_ne: "Join p d \<noteq> ''/''" using d by (simp add: Join_not_root)
  show ?case
  proof (cases "ds = []")
    case True
    then show ?thesis by (simp add: p1 pathOf_def)
  next
    case False
    have "foldl Join (Join p d) ds = (if Join p d = ''/'' then [] else Join p d) @ pathOf ds"
      using Cons.prems(1) False by (intro Cons.IH) auto
    then show ?thesis using p1_ne by (simp add: p1 pathOf_def)
  qed
qed

lemma siblingPath_unaffected:
  "unaffected fs ds p \<Longrightarrow>
   siblingPath fs uid gid (ds @ es) p = siblingPath fs uid gid es (foldl Join p ds)"
  by (induction ds arbitrary: p) auto

lemma siblingPath_last_segment:
  assumes "cleanSegments segs" and "unaffected fs (butlast segs) ''/''"
      and "\<not> traversable fs (pathOf segs)"
  shows "siblingPath fs uid gid segs ''/'' = pathOf segs @ idSuffix uid gid"
proof -
  from assms(1) have ne: "segs \<noteq> []" and nn: "\<forall>d\<in>set segs. d \<noteq> []"
    by (auto simp: cleanSegments_def)
  let ?ds = "butlast segs" and ?d = "last segs"
  have segs: "segs = ?ds @ [?d]" using ne by simp
  have full: "foldl Join ''/'' segs = pathOf segs"
    using foldl_Join_pathOf [OF nn ne, of "''/''"] by simp
  have "Join (foldl Join ''/'' ?ds) ?d = foldl Join ''/'' (?ds @ [?d])" by simp
  also have "\<dots> = pathOf segs" using segs full by simp
  finally have j: "Join (foldl Join ''/'' ?ds) ?d = pathOf segs" .
  have "siblingPath fs uid gid (?ds @ [?d]) ''/'' =
        siblingPath fs uid gid [?d] (foldl Join ''/'' ?ds)"
    using assms(2) by (rule siblingPath_unaffected)
  also have "\<dots> = pathOf segs @ idSuffix uid gid"
    using assms(3) by (simp add: j)
  finally show ?thesis using segs by simp
qed

subsection \<open>A root with no affected segment\<close>

lemma bundleWalk_unaffected:
  "faultless s \<Longrightarrow> unaffected (files s) ds p \<Longrightarrow>
   bundleWalk uid gid ds p s = (Inr (foldl Join p ds), s)"
  by (induction ds arbitrary: p) (simp_all add: bundleSegment_faultless)

subsection \<open>The path returned\<close>

text \<open>
  C5, as amended. With uid 0 and gid 0, \<open>prepareBundleDir\<close> returns the absolute
  state root as it is and touches nothing. With other ids (1000 and 1000, say), for a
  clean absolute state root and barring failures of the file system, it returns the
  path of the walk in which every segment whose path does not exist or cannot be
  traversed by others (the lowest mode bit is clear; the owner is not looked at) is
  replaced by its sibling \<open>segment.<uid>.<gid>\<close>, and every other segment is kept.
  When no segment before the last is replaced and the root itself is missing or not
  traversable by others, the path is \<open><root>.<uid>.<gid>\<close>. When every segment of
  the walk, the root included, exists and can be traversed by others, the state root
  is returned as it is and nothing is created, whoever owns the directories. The entry
  of the original root directory is the same before and after the call.
\<close>

theorem prepareBundleDir_paths:
  assumes "Abs s stateDir = Inr root"
  shows "prepareBundleDir s stateDir 0 0 = (Inr root, s) \<and>
         (faultless s \<and> cleanSegments segs \<and> root = pathOf segs \<and> (uid \<noteq> 0 \<or> gid \<noteq> 0) \<longrightarrow>
            fst (prepareBundleDir s stateDir uid gid) =
              Inr (siblingPath (files s) uid gid segs ''/'') \<and>
            (unaffected (files s) (butlast segs) ''/'' \<and> \<not> traversable (files s) root \<longrightarrow>
               fst (prepareBundleDir s stateDir uid gid) = Inr (root @ idSuffix uid gid)) \<and>
            (unaffected (files s) segs ''/'' \<longrightarrow>
               prepareBundleDir s stateDir uid gid = (Inr root, s)) \<and>
            files (snd (prepareBundleDir s stateDir uid gid)) root = files s root)"
proof (intro conjI impI)
  show "prepareBundleDir s stateDir 0 0 = (Inr root, s)"
    using assms by (simp add: prepareBundleDir_def)
next
  assume h: "faultless s \<and> cleanSegments segs \<and> root = pathOf segs \<and> (uid \<noteq> 0 \<or> gid \<noteq> 0)"
  then have nn: "\<forall>d\<in>set segs. d \<noteq> []" by (auto simp: cleanSegments_def)
  have walk: "prepareBundleDir s stateDir uid gid = bundleWalk uid gid segs ''/'' s"
    using assms h by (auto simp: prepareBundleDir_def Split_pathOf)
  show path: "fst (prepareBundleDir s stateDir uid gid) =
      Inr (siblingPath (files s) uid gid segs ''/'')"
    unfolding walk using h nn by (intro bundleWalk_siblingPath) auto
  show "files (snd (prepareBundleDir s stateDir uid gid)) root = files s root"
    unfolding walk using h nn by (intro bundleWalk_on_track) auto
  {
    assume "unaffected (files s) (butlast segs) ''/'' \<and> \<not> traversable (files s) root"
    then show "fst (prepareBundleDir s stateDir uid gid) = Inr (root @ idSuffix uid gid)"
      using path h siblingPath_last_segment [of segs "files s" uid gid] by simp
  }
  {
    assume u: "unaffected (files s) segs ''/''"
    have ne: "segs \<noteq> []" using h by (simp add: cleanSegments_def)
    have "foldl Join ''/'' segs = root"
      using foldl_Join_pathOf [OF nn ne, of "''/''"] h by simp
    then show "prepareBundleDir s stateDir uid gid = (Inr root, s)"
      unfolding walk using h u by (simp add: bundleWalk_unaffected)
  }
qed

lemma idSuffix_1000: "idSuffix 1000 1000 = ''.1000.1000''"
  by (simp add: idSuffix_def Itoa_def digits.simps digit_def)

theorem prepareBundleDir_paths_witness:
  "Abs sampleFiles ''/run/libcontainerd'' = Inr ''/run/libcontainerd'' \<and>
   faultless sampleFiles \<and> cleanSegments [''run'', ''libcontainerd''] \<and>
   ''/run/libcontainerd'' = pathOf [''run'', ''libcontainerd''] \<and>
   unaffected (files sampleFiles) (butlast [''run'', ''libcontainerd'']) ''/'' \<and>
   \<not> traversable (files sampleFiles) ''/run/libcontainerd'' \<and>
   prepareBundleDir sampleFiles ''/run/libcontainerd'' 0 0 = (Inr ''/run/libcontainerd'', sampleFiles) \<and>
   fst (prepareBundleDir sampleFiles ''/run/libcontainerd'' 1000 1000) =
     Inr ''/run/libcontainerd.1000.1000'' \<and>
   files (snd (prepareBundleDir sampleFiles ''/run/libcontainerd'' 1000 1000)) ''/run/libcontainerd'' =
     Some \<lparr>Mode = 448, Uid = 0, Gid = 0\<rparr> \<and>
   Abs sampleOpenFiles ''/run/libcontainerd'' = Inr ''/run/libcontainerd'' \<and>
   faultless sampleOpenFiles \<and>
   unaffected (files sampleOpenFiles) [''run'', ''libcontainerd''] ''/'' \<and>
   prepareBundleDir sampleOpenFiles ''/run/libcontainerd'' 1000 1000 =
     (Inr ''/run/libcontainerd'', sampleOpenFiles)"
proof -
  have a: "Abs sampleFiles ''/run/libcontainerd'' = Inr ''/run/libcontainerd''"
    by (simp add: sampleFiles_def)
  have b: "faultless sampleFiles" by (simp add: faultless_def sampleFiles_def)
  have c: "cleanSegments [''run'', ''libcontainerd'']" by (simp add: cleanSegments_def)
  have d: "''/run/libcontainerd'' = pathOf [''run'', ''libcontainerd'']" by (simp add: pathOf_def)
  have e: "unaffected (files sampleFiles) (butlast [''run'', ''libcontainerd'']) ''/''"
    by (simp add: sampleFiles_def traversable_def Join_def)
  have f: "\<not> traversable (files sampleFiles) ''/run/libcontainerd''"
    by (simp add: sampleFiles_def traversable_def)
  have g: "files sampleFiles ''/run/libcontainerd'' = Some \<lparr>Mode = 448, Uid = 0, Gid = 0\<rparr>"
    by (simp add: sampleFiles_def)
  have h: "faultless sampleFiles \<and> cleanSegments [''run'', ''libcontainerd''] \<and>
      ''/run/libcontainerd'' = pathOf [''run'', ''libcontainerd''] \<and>
      ((1000::int) \<noteq> 0 \<or> (1000::int) \<noteq> 0)"
    using b c d by simp
  have k: "unaffected (files sampleFiles) (butlast [''run'', ''libcontainerd'']) ''/'' \<and>
      \<not> traversable (files sampleFiles) ''/run/libcontainerd''"
    using e f by simp
  note t = prepareBundleDir_paths [OF a, of "[''run'', ''libcontainerd'']" 1000 1000]
  have t1: "prepareBundleDir sampleFiles ''/run/libcontainerd'' 0 0 =
      (Inr ''/run/libcontainerd'', sampleFiles)"
    using t by (rule conjunct1)
  have t2: "fst (prepareBundleDir sampleFiles ''/run/libcontainerd'' 1000 1000) =
      Inr (''/run/libcontainerd'' @ idSuffix 1000 1000)"
    using t h k by blast
  have t3: "files (snd (prepareBundleDir sampleFiles ''/run/libcontainerd'' 1000 1000))
      ''/run/libcontainerd'' = files sampleFiles ''/run/libcontainerd''"
    using t h by blast
  have a': "Abs sampleOpenFiles ''/run/libcontainerd'' = Inr ''/run/libcontainerd''"
    by (simp add: sampleOpenFiles_def)
  have b': "faultless sampleOpenFiles" by (simp add: faultless_def sampleOpenFiles_def)
  have e': "unaffected (files sampleOpenFiles) [''run'', ''libcontainerd''] ''/''"
    by (simp add: sampleOpenFiles_def traversable_def Join_def)
  have h': "faultless sampleOpenFiles \<and> cleanSegments [''run'', ''libcontainerd''] \<and>
      ''/run/libcontainerd'' = pathOf [''run'', ''libcontainerd''] \<and>
      ((1000::int) \<noteq> 0 \<or> (1000::int) \<noteq> 0)"
    using b' c d by simp
  note t' = prepareBundleDir_paths [OF a', of "[''run'', ''libcontainerd'']" 1000 1000]
  have t4: "prepareBundleDir sampleOpenFiles ''/run/libcontainerd'' 1000 1000 =
      (Inr ''/run/libcontainerd'', sampleOpenFiles)"
    using t' h' e' by blast
  show ?thesis
    using a b c e f g t1 t2 t3 a' b' e' t4 by (simp add: idSuffix_1000 pathOf_def)
qed

text \<open>
  C5 as stated fails at the state directory \<open>/run/libcontainerd\<close> that is owned by
  root and can be traversed by others (mode \<open>0755\<close>), as can \<open>/run\<close> above it: for
  uid 1000 and gid 1000 the path returned is the state root itself, not a sibling, and
  no directory is created.
\<close>

theorem prepareBundleDir_root_owned_traversable:
  "files sampleOpenFiles ''/run/libcontainerd'' = Some \<lparr>Mode = 493, Uid = 0, Gid = 0\<rparr> \<and>
   prepareBundleDir sampleOpenFiles ''/run/libcontainerd'' 1000 1000 =
     (Inr ''/run/libcontainerd'', sampleOpenFiles)"
  by (simp add: prepareBundleDir_def sampleOpenFiles_def bundleSegment_def Stat_def Join_def
      IsNotExist_def Let_def)

end
